theory Spec2Isabelle
  imports Main "HOL-Library.Word"
begin

unbundle bit_operations_syntax

section \<open>Error values\<close>

text \<open>
  Go \<open>error\<close> values as the program builds and inspects them.
  \<^item> \<open>ErrCanceled\<close> is the sentinel \<open>context.Canceled\<close>.
  \<^item> \<open>ErrText msg\<close> is an error with message \<open>msg\<close> and no \<open>Unwrap\<close> chain that
    reaches \<open>context.Canceled\<close>: the result of \<open>errors.New\<close>, of \<open>fmt.Errorf\<close>
    without \<open>%w\<close>, and the errors of \<open>os.ReadFile\<close>, \<open>yaml.Unmarshal\<close> and
    \<open>strconv\<close>.
  \<^item> \<open>ErrWrap prefix e\<close> is \<open>fmt.Errorf(prefix + "%w", e)\<close>; every \<open>%w\<close> of the
    program stands at the end of its format string.
  A nil error is \<open>None\<close> of \<open>goerr option\<close>.
\<close>

datatype goerr = ErrCanceled | ErrText string | ErrWrap string goerr

fun Error :: "goerr \<Rightarrow> string" where
  "Error ErrCanceled = ''context canceled''"
| "Error (ErrText msg) = msg"
| "Error (ErrWrap prefix e) = prefix @ Error e"

fun Unwrap :: "goerr \<Rightarrow> goerr option" where
  "Unwrap (ErrWrap prefix e) = Some e"
| "Unwrap e = None"

text \<open>
  \<open>errors.Is(err, context.Canceled)\<close> for a non-nil \<open>err\<close>: compare, unwrap, repeat.
\<close>

fun errors_Is_Canceled :: "goerr \<Rightarrow> bool" where
  "errors_Is_Canceled ErrCanceled = True"
| "errors_Is_Canceled (ErrText msg) = False"
| "errors_Is_Canceled (ErrWrap prefix e) = errors_Is_Canceled e"

text \<open>The chain of errors reached from an error by repeated \<open>Unwrap\<close>, itself first.\<close>

fun unwrap_chain :: "goerr \<Rightarrow> goerr list" where
  "unwrap_chain (ErrWrap prefix e) = ErrWrap prefix e # unwrap_chain e"
| "unwrap_chain e = [e]"

section \<open>Library functions the program calls\<close>

type_synonym byte = "8 word"

text \<open>
  The pure functions of the standard library and of \<open>yaml.v2\<close> that the program calls
  are parameters of the model. \<open>'m\<close> is \<open>managerconfig.ManagerSettings\<close> and \<open>'a\<close> is
  \<open>managerconfig.APISettings\<close>; both types belong to the core library.
  \<open>sha256_digest\<close> maps the bytes written to a fresh SHA-256 hasher to its digest.
  The unmarshal functions return the message of the YAML error on failure.
\<close>

record ('m, 'a) lib =
  sha256_digest :: "byte list \<Rightarrow> byte list"
  filepath_Clean :: "string \<Rightarrow> string"
  strings_ToLower :: "string \<Rightarrow> string"
  strconv_Atoi :: "string \<Rightarrow> string + 64 word"
  strconv_ParseBool :: "string \<Rightarrow> string + bool"
  yaml_Unmarshal_manager :: "byte list \<Rightarrow> string + 'm"
  yaml_Unmarshal_api :: "byte list \<Rightarrow> string + 'a"

text \<open>
  A file system as one \<open>os.ReadFile\<close> call sees it: the bytes of the file at a path, or
  the message of the \<open>*fs.PathError\<close>.
\<close>

type_synonym files = "string \<Rightarrow> string + byte list"

section \<open>Fingerprints (logger.go, \<open>hash\<close>)\<close>

text \<open>
  A \<open>hash.Hash\<close> is the bytes written to it so far: \<open>sha256.New()\<close> starts empty,
  \<open>Write\<close> appends, \<open>Sum(b)\<close> appends the digest of what was written to \<open>b\<close>.
\<close>

definition sha256_New :: "byte list" where
  "sha256_New = []"

definition hash_Write :: "byte list \<Rightarrow> byte list \<Rightarrow> byte list" where
  "hash_Write h p = h @ p"

definition hash_Sum :: "('m, 'a) lib \<Rightarrow> byte list \<Rightarrow> byte list \<Rightarrow> byte list" where
  "hash_Sum L h b = b @ sha256_digest L h"

definition hextable :: string where
  "hextable = ''0123456789abcdef''"

fun hex_EncodeToString :: "byte list \<Rightarrow> string" where
  "hex_EncodeToString [] = []"
| "hex_EncodeToString (v # src) =
     hextable ! unat (drop_bit 4 v) # hextable ! unat (v AND 0x0f) # hex_EncodeToString src"

definition hash :: "('m, 'a) lib \<Rightarrow> byte list \<Rightarrow> string" where
  "hash L input =
     (let h = sha256_New;
          h = hash_Write h input;
          bs = hash_Sum L h []
      in hex_EncodeToString bs)"

section \<open>Settings readers (logger.go)\<close>

definition readManagerSettings ::
  "('m, 'a) lib \<Rightarrow> files \<Rightarrow> string \<Rightarrow> goerr + ('m \<times> string)" where
  "readManagerSettings L fs filename =
     (case fs (filepath_Clean L filename) of
        Inl err \<Rightarrow>
          Inl (ErrWrap (''failed to read manager settings file '' @ filename @ '': '') (ErrText err))
      | Inr settingsYaml \<Rightarrow>
          (case yaml_Unmarshal_manager L settingsYaml of
             Inl err \<Rightarrow>
               Inl (ErrWrap (''failed to unmarshal manager settings from '' @ filename @ '': '')
                      (ErrText err))
           | Inr settings \<Rightarrow> Inr (settings, hash L settingsYaml)))"

definition readAPISettings ::
  "('m, 'a) lib \<Rightarrow> files \<Rightarrow> string \<Rightarrow> goerr + ('a \<times> string)" where
  "readAPISettings L fs filename =
     (case fs (filepath_Clean L filename) of
        Inl err \<Rightarrow>
          Inl (ErrWrap (''failed to read API settings file '' @ filename @ '': '') (ErrText err))
      | Inr settingsYaml \<Rightarrow>
          (case yaml_Unmarshal_api L settingsYaml of
             Inl err \<Rightarrow>
               Inl (ErrWrap (''failed to unmarshal API settings from '' @ filename @ '': '')
                      (ErrText err))
           | Inr settings \<Rightarrow> Inr (settings, hash L settingsYaml)))"

section \<open>Observable events\<close>

text \<open>
  What the program does to the outside, in order. A log call is recorded as the call:
  level, format string and arguments. Starting a goroutine is recorded when the
  \<open>go\<close> statement or \<open>errg.Go\<close> runs.
\<close>

datatype fmtarg = AStr string | AInt int | AErr goerr

datatype level = InfoLevel | ErrorLevel

datatype goroutine = G_handleSignals | G_metricsServer string | G_apiServer | G_manager
  | G_refreshSettings string string

datatype ('m, 'a) event =
    EvReadFile string
  | EvManagerUpdateSettings 'm
  | EvAPIUpdateSettings 'a
  | EvLog level string "fmtarg list"
  | EvGo goroutine

section \<open>Startup configuration (config/config.go)\<close>

text \<open>Go's \<open>int\<close> is 64 bits wide, \<open>int32\<close> 32 bits; \<open>time.Duration\<close> is an \<open>int64\<close>.\<close>

record SqsQueueConfig =
  QueueName :: string
  VisibilityTimeoutSeconds :: "32 word"
  MaxNumberOfMessages :: "32 word"
  WaitTimeSeconds :: "32 word"

record DynamoDBConfig =
  TableName :: string

record AwsConfig =
  Region :: string
  Key :: string
  SecretKey :: string
  SessionToken :: string
  AssumeRole :: string
  MaxRetryAttempts :: "64 word"
  MaxRetryBackoffDelay :: "64 word"
  Concurrency :: "64 word"
  SqsEndpoint :: string
  AlertQueue :: SqsQueueConfig
  CommandQueue :: SqsQueueConfig
  DynamoDB :: DynamoDBConfig

record PostgresConfig =
  Host :: string
  Port :: "64 word"
  User :: string
  Password :: string
  Database :: string
  SSLMode :: string
  IssuesTable :: string
  AlertsTable :: string
  MoveMappingsTable :: string
  ChannelProcessingStateTable :: string

record SlackConfig =
  AppToken :: string
  BotToken :: string

record RedisConfig =
  Addr :: string
  Username :: string
  Password :: string
  DB :: "64 word"

record Config =
  LogJSON :: bool
  Verbose :: bool
  Location :: string
  RestPort :: string
  EncryptionKey :: string
  SkipDatabaseCache :: bool
  EnableMetrics :: bool
  MetricsPort :: string
  QueueMode :: string
  DatabaseMode :: string
  ManagerSettingsFilename :: string
  APISettingsFilename :: string
  Aws :: AwsConfig
  Postgres :: PostgresConfig
  Slack :: SlackConfig
  Redis :: RedisConfig

section \<open>The settings refresh loop (main.go, \<open>refreshSettings\<close>)\<close>

text \<open>
  The loop's variables and what it has done so far. \<open>ctx_done\<close> holds when the context
  was cancelled before the loop reaches its \<open>select\<close>.
\<close>

record ('m, 'a) rstate =
  managerSettingsHash :: string
  apiSettingsHash :: string
  ctx_done :: bool
  trace :: "('m, 'a) event list"

text \<open>
  What the outside does during one iteration of the loop.
  \<^item> \<open>ctx_Done_first\<close>: while the \<open>select\<close> waits, the context is cancelled before
    the 10 second timer fires. The timer is created when the \<open>select\<close> is entered, so a
    context that is already cancelled there always wins.
  \<^item> \<open>fs_manager\<close>, \<open>fs_api\<close>: the file system at the read of each settings file.
  \<^item> \<open>manager_UpdateSettings\<close>, \<open>apiServer_UpdateSettings\<close>: what the service
    answers to an update with a given document (\<open>None\<close> is a nil error).
  \<^item> \<open>cancel_in_cycle\<close>: the context is cancelled while the timer branch runs.
\<close>

record ('m, 'a) tick =
  ctx_Done_first :: bool
  fs_manager :: files
  manager_UpdateSettings :: "'m \<Rightarrow> goerr option"
  fs_api :: files
  apiServer_UpdateSettings :: "'a \<Rightarrow> goerr option"
  cancel_in_cycle :: bool

definition emit :: "('m, 'a) event list \<Rightarrow> ('m, 'a) rstate \<Rightarrow> ('m, 'a) rstate" where
  "emit evs st = st\<lparr>trace := trace st @ evs\<rparr>"

text \<open>Lines 169 to 178: the manager settings.\<close>

definition refreshManager ::
  "('m, 'a) lib \<Rightarrow> Config \<Rightarrow> ('m, 'a) tick \<Rightarrow> ('m, 'a) rstate \<Rightarrow> ('m, 'a) rstate" where
  "refreshManager L cfg t st =
     (let st = emit [EvReadFile (filepath_Clean L (ManagerSettingsFilename cfg))] st in
      case readManagerSettings L (fs_manager t) (ManagerSettingsFilename cfg) of
        Inl err \<Rightarrow> emit [EvLog ErrorLevel ''Failed to read manager settings: %s'' [AErr err]] st
      | Inr (managerSettings, hash') \<Rightarrow>
          if hash' \<noteq> managerSettingsHash st then
            (let st = emit [EvManagerUpdateSettings managerSettings] st;
                 st = (case manager_UpdateSettings t managerSettings of
                         Some err \<Rightarrow>
                           emit [EvLog ErrorLevel ''Failed to update manager settings: %s''
                                   [AErr err]] st
                       | None \<Rightarrow> st)
             in st\<lparr>managerSettingsHash := hash'\<rparr>)
          else st)"

text \<open>Lines 180 to 189: the API settings.\<close>

definition refreshAPI ::
  "('m, 'a) lib \<Rightarrow> Config \<Rightarrow> ('m, 'a) tick \<Rightarrow> ('m, 'a) rstate \<Rightarrow> ('m, 'a) rstate" where
  "refreshAPI L cfg t st =
     (let st = emit [EvReadFile (filepath_Clean L (APISettingsFilename cfg))] st in
      case readAPISettings L (fs_api t) (APISettingsFilename cfg) of
        Inl err \<Rightarrow> emit [EvLog ErrorLevel ''Failed to read API settings: %s'' [AErr err]] st
      | Inr (apiSettings, hash') \<Rightarrow>
          if hash' \<noteq> apiSettingsHash st then
            (let st = emit [EvAPIUpdateSettings apiSettings] st;
                 st = (case apiServer_UpdateSettings t apiSettings of
                         Some err \<Rightarrow>
                           emit [EvLog ErrorLevel ''Failed to update API settings: %s''
                                   [AErr err]] st
                       | None \<Rightarrow> st)
             in st\<lparr>apiSettingsHash := hash'\<rparr>)
          else st)"

text \<open>The timer branch of the \<open>select\<close>: one refresh cycle.\<close>

definition refreshCycle ::
  "('m, 'a) lib \<Rightarrow> Config \<Rightarrow> ('m, 'a) tick \<Rightarrow> ('m, 'a) rstate \<Rightarrow> ('m, 'a) rstate" where
  "refreshCycle L cfg t st = refreshAPI L cfg t (refreshManager L cfg t st)"

text \<open>
  The loop over a schedule of iterations. It returns \<open>ctx.Err()\<close>, which is
  \<open>context.Canceled\<close> for a cancelled context without deadline, from the first
  \<open>select\<close> that finds the context cancelled. The result \<open>None\<close> says that the loop has
  not returned when the schedule ends: it waits in its \<open>select\<close>.
\<close>

fun refreshSettings ::
  "('m, 'a) lib \<Rightarrow> Config \<Rightarrow> ('m, 'a) rstate \<Rightarrow> ('m, 'a) tick list
     \<Rightarrow> goerr option \<times> ('m, 'a) rstate" where
  "refreshSettings L cfg st [] = (if ctx_done st then (Some ErrCanceled, st) else (None, st))"
| "refreshSettings L cfg st (t # ts) =
     (if ctx_done st \<or> ctx_Done_first t then (Some ErrCanceled, st\<lparr>ctx_done := True\<rparr>)
      else refreshSettings L cfg ((refreshCycle L cfg t st)\<lparr>ctx_done := cancel_in_cycle t\<rparr>) ts)"

text \<open>The cycles of a schedule run one after the other, with no \<open>select\<close> between them.\<close>

fun run_cycles ::
  "('m, 'a) lib \<Rightarrow> Config \<Rightarrow> ('m, 'a) rstate \<Rightarrow> ('m, 'a) tick list \<Rightarrow> ('m, 'a) rstate" where
  "run_cycles L cfg st [] = st"
| "run_cycles L cfg st (t # ts) = run_cycles L cfg (refreshCycle L cfg t st) ts"

text \<open>The file reads of a trace, and the documents passed to each service's update.\<close>

fun is_ReadFile :: "('m, 'a) event \<Rightarrow> bool" where
  "is_ReadFile (EvReadFile p) = True"
| "is_ReadFile e = False"

fun manager_updates :: "('m, 'a) event list \<Rightarrow> 'm list" where
  "manager_updates [] = []"
| "manager_updates (EvManagerUpdateSettings d # evs) = d # manager_updates evs"
| "manager_updates (e # evs) = manager_updates evs"

fun api_updates :: "('m, 'a) event list \<Rightarrow> 'a list" where
  "api_updates [] = []"
| "api_updates (EvAPIUpdateSettings d # evs) = d # api_updates evs"
| "api_updates (e # evs) = api_updates evs"

text \<open>The events a step adds to the trace.\<close>

definition new_events :: "('m, 'a) rstate \<Rightarrow> ('m, 'a) rstate \<Rightarrow> ('m, 'a) event list" where
  "new_events st st' = drop (length (trace st)) (trace st')"

section \<open>Reading the environment (config/config.go)\<close>

text \<open>
  A panic carries a value: \<open>config.New\<close> panics with a string, \<open>getLocation\<close> with
  an error. \<open>fmt_v\<close> is what the verb \<open>%v\<close> prints for it.
\<close>

datatype panicval = PanicString string | PanicError goerr

fun fmt_v :: "panicval \<Rightarrow> string" where
  "fmt_v (PanicString s) = s"
| "fmt_v (PanicError e) = Error e"

text \<open>
  The outcome of a stretch of \<open>mainImpl\<close>: it goes on with a value, or \<open>mainImpl\<close>
  returns an error there, or it panics.
\<close>

datatype 'x outcome = Ok 'x | Return goerr | Panic panicval

type_synonym environ = "string \<Rightarrow> string option"

definition os_Getenv :: "environ \<Rightarrow> string \<Rightarrow> string" where
  "os_Getenv env key = (case env key of Some val \<Rightarrow> val | None \<Rightarrow> [])"

definition GetEnvIfSet :: "environ \<Rightarrow> string \<Rightarrow> string \<Rightarrow> string" where
  "GetEnvIfSet env envVar defaultValue =
     (case env envVar of Some val \<Rightarrow> val | None \<Rightarrow> defaultValue)"

definition GetEnvIntIfSet ::
  "('m, 'a) lib \<Rightarrow> environ \<Rightarrow> string \<Rightarrow> 64 word \<Rightarrow> 64 word outcome" where
  "GetEnvIntIfSet L env envVar defaultValue =
     (let str = os_Getenv env envVar in
      if str \<noteq> [] then
        (case strconv_Atoi L str of
           Inl err \<Rightarrow>
             Panic (PanicString
               (''failed to parse environment variable '' @ envVar @ '' as int: '' @ err))
         | Inr val \<Rightarrow> Ok val)
      else Ok defaultValue)"

definition GetEnvBoolIfSet ::
  "('m, 'a) lib \<Rightarrow> environ \<Rightarrow> string \<Rightarrow> bool \<Rightarrow> bool outcome" where
  "GetEnvBoolIfSet L env envVar defaultValue =
     (let str = os_Getenv env envVar in
      if str \<noteq> [] then
        (case strconv_ParseBool L str of
           Inl err \<Rightarrow>
             Panic (PanicString
               (''failed to parse environment variable '' @ envVar @ '' as bool: '' @ err))
         | Inr val \<Rightarrow> Ok val)
      else Ok defaultValue)"

text \<open>Sequencing: the rest runs only when the first part goes on.\<close>

definition bind_outcome :: "'x outcome \<Rightarrow> ('x \<Rightarrow> 'y outcome) \<Rightarrow> 'y outcome" where
  "bind_outcome m f = (case m of Ok x \<Rightarrow> f x | Return e \<Rightarrow> Return e | Panic p \<Rightarrow> Panic p)"

definition time_Second :: "64 word" where
  "time_Second = 1000000000"

definition GetEnvSecondsIfSet ::
  "('m, 'a) lib \<Rightarrow> environ \<Rightarrow> string \<Rightarrow> 64 word \<Rightarrow> 64 word outcome" where
  "GetEnvSecondsIfSet L env envVar defaultValue =
     bind_outcome (GetEnvIntIfSet L env envVar defaultValue) (\<lambda>val. Ok (val * time_Second))"

text \<open>
  \<open>config.New\<close>: the fields of the composite literal are evaluated in source order,
  so the first malformed variable in that order is the one that panics. The lookups
  that cannot fail are written in place.
\<close>

definition config_New :: "('m, 'a) lib \<Rightarrow> environ \<Rightarrow> Config outcome" where
  "config_New L env =
     bind_outcome (GetEnvBoolIfSet L env ''LOG_JSON'' True) (\<lambda>logJSON.
     bind_outcome (GetEnvBoolIfSet L env ''VERBOSE'' False) (\<lambda>verbose.
     bind_outcome (GetEnvBoolIfSet L env ''SKIP_DATABASE_CACHE'' False) (\<lambda>skipDatabaseCache.
     bind_outcome (GetEnvBoolIfSet L env ''ENABLE_METRICS'' True) (\<lambda>enableMetrics.
     bind_outcome (GetEnvIntIfSet L env ''AWS_MAX_RETRY_ATTEMPTS'' 5) (\<lambda>maxRetryAttempts.
     bind_outcome (GetEnvSecondsIfSet L env ''AWS_MAX_RETRY_BACKOFF_DELAY'' 30)
       (\<lambda>maxRetryBackoffDelay.
     bind_outcome (GetEnvIntIfSet L env ''AWS_CONCURRENCY'' 10) (\<lambda>concurrency.
     bind_outcome (GetEnvIntIfSet L env ''AWS_SQS_ALERT_QUEUE_VISIBILITY_TIMEOUT_SECONDS'' 30)
       (\<lambda>alertVisibility.
     bind_outcome (GetEnvIntIfSet L env ''AWS_SQS_ALERT_QUEUE_MAX_NUMBER_OF_MESSAGES'' 10)
       (\<lambda>alertMaxNumber.
     bind_outcome (GetEnvIntIfSet L env ''AWS_SQS_ALERT_QUEUE_WAIT_TIME_SECONDS'' 20)
       (\<lambda>alertWaitTime.
     bind_outcome (GetEnvIntIfSet L env ''AWS_SQS_COMMAND_QUEUE_VISIBILITY_TIMEOUT_SECONDS'' 30)
       (\<lambda>commandVisibility.
     bind_outcome (GetEnvIntIfSet L env ''AWS_SQS_COMMAND_QUEUE_MAX_NUMBER_OF_MESSAGES'' 10)
       (\<lambda>commandMaxNumber.
     bind_outcome (GetEnvIntIfSet L env ''AWS_SQS_COMMAND_QUEUE_WAIT_TIME_SECONDS'' 20)
       (\<lambda>commandWaitTime.
     bind_outcome (GetEnvIntIfSet L env ''POSTGRES_PORT'' 0) (\<lambda>postgresPort.
     bind_outcome (GetEnvIntIfSet L env ''REDIS_DB'' 0) (\<lambda>redisDB.
     Ok \<lparr>LogJSON = logJSON,
         Verbose = verbose,
         Location = GetEnvIfSet env ''LOCATION'' ''Europe/Oslo'',
         RestPort = GetEnvIfSet env ''REST_PORT'' ''8080'',
         EncryptionKey = GetEnvIfSet env ''ENCRYPTION_KEY'' [],
         SkipDatabaseCache = skipDatabaseCache,
         EnableMetrics = enableMetrics,
         MetricsPort = GetEnvIfSet env ''METRICS_PORT'' ''9090'',
         QueueMode = GetEnvIfSet env ''QUEUE_MODE'' ''redis'',
         DatabaseMode = GetEnvIfSet env ''DATABASE_MODE'' ''postgres'',
         ManagerSettingsFilename =
           GetEnvIfSet env ''MANAGER_SETTINGS_FILENAME'' ''manager-settings.yaml'',
         APISettingsFilename = GetEnvIfSet env ''API_SETTINGS_FILENAME'' ''api-settings.yaml'',
         Aws =
           \<lparr>Region = GetEnvIfSet env ''AWS_REGION'' [],
            Key = GetEnvIfSet env ''AWS_ACCESS_KEY_ID'' [],
            SecretKey = GetEnvIfSet env ''AWS_SECRET_ACCESS_KEY'' [],
            SessionToken = GetEnvIfSet env ''AWS_SESSION_TOKEN'' [],
            AssumeRole = GetEnvIfSet env ''AWS_ASSUME_ROLE'' [],
            MaxRetryAttempts = maxRetryAttempts,
            MaxRetryBackoffDelay = maxRetryBackoffDelay,
            Concurrency = concurrency,
            SqsEndpoint = GetEnvIfSet env ''AWS_SQS_ENDPOINT'' [],
            AlertQueue =
              \<lparr>QueueName = GetEnvIfSet env ''AWS_SQS_ALERT_QUEUE_NAME'' [],
               VisibilityTimeoutSeconds = ucast alertVisibility,
               MaxNumberOfMessages = ucast alertMaxNumber,
               WaitTimeSeconds = ucast alertWaitTime\<rparr>,
            CommandQueue =
              \<lparr>QueueName = GetEnvIfSet env ''AWS_SQS_COMMAND_QUEUE_NAME'' [],
               VisibilityTimeoutSeconds = ucast commandVisibility,
               MaxNumberOfMessages = ucast commandMaxNumber,
               WaitTimeSeconds = ucast commandWaitTime\<rparr>,
            DynamoDB = \<lparr>TableName = GetEnvIfSet env ''AWS_DYNAMODB_TABLE_NAME'' []\<rparr>\<rparr>,
         Postgres =
           \<lparr>Host = GetEnvIfSet env ''POSTGRES_HOST'' [],
            Port = postgresPort,
            User = GetEnvIfSet env ''POSTGRES_USER'' [],
            PostgresConfig.Password = GetEnvIfSet env ''POSTGRES_PASSWORD'' [],
            Database = GetEnvIfSet env ''POSTGRES_DATABASE'' [],
            SSLMode = GetEnvIfSet env ''POSTGRES_SSL_MODE'' ''disable'',
            IssuesTable = GetEnvIfSet env ''POSTGRES_ISSUES_TABLE'' ''issues'',
            AlertsTable = GetEnvIfSet env ''POSTGRES_ALERTS_TABLE'' ''alerts'',
            MoveMappingsTable = GetEnvIfSet env ''POSTGRES_MOVE_MAPPINGS_TABLE'' ''move_mappings'',
            ChannelProcessingStateTable =
              GetEnvIfSet env ''POSTGRES_CHANNEL_PROCESSING_STATE_TABLE''
                ''channel_processing_state''\<rparr>,
         Slack =
           \<lparr>AppToken = GetEnvIfSet env ''SLACK_APP_TOKEN'' [],
            BotToken = GetEnvIfSet env ''SLACK_BOT_TOKEN'' []\<rparr>,
         Redis =
           \<lparr>Addr = GetEnvIfSet env ''REDIS_ADDR'' [],
            Username = GetEnvIfSet env ''REDIS_USERNAME'' [],
            Password = GetEnvIfSet env ''REDIS_PASSWORD'' [],
            DB = redisDB\<rparr>\<rparr>)))))))))))))))"

text \<open>The variables \<open>config.New\<close> parses as booleans and as integers, in source order.\<close>

definition bool_env_vars :: "string list" where
  "bool_env_vars = [''LOG_JSON'', ''VERBOSE'', ''SKIP_DATABASE_CACHE'', ''ENABLE_METRICS'']"

definition int_env_vars :: "string list" where
  "int_env_vars =
     [''AWS_MAX_RETRY_ATTEMPTS'', ''AWS_MAX_RETRY_BACKOFF_DELAY'', ''AWS_CONCURRENCY'',
      ''AWS_SQS_ALERT_QUEUE_VISIBILITY_TIMEOUT_SECONDS'',
      ''AWS_SQS_ALERT_QUEUE_MAX_NUMBER_OF_MESSAGES'',
      ''AWS_SQS_ALERT_QUEUE_WAIT_TIME_SECONDS'',
      ''AWS_SQS_COMMAND_QUEUE_VISIBILITY_TIMEOUT_SECONDS'',
      ''AWS_SQS_COMMAND_QUEUE_MAX_NUMBER_OF_MESSAGES'',
      ''AWS_SQS_COMMAND_QUEUE_WAIT_TIME_SECONDS'',
      ''POSTGRES_PORT'', ''REDIS_DB'']"

section \<open>What the outside answers at startup\<close>

text \<open>
  The calls into the core library, the plugins, the AWS SDK and the operating system
  that \<open>mainImpl\<close> makes until the services run. A call that can only fail or succeed
  answers with an error or \<open>None\<close>. The calls that take the context can fail with an
  error that wraps \<open>context.Canceled\<close>. \<open>errg_Wait\<close> is the first non-nil error a
  task of the group returned, or \<open>None\<close>.
\<close>

record world =
  os_env :: environ
  debug_Stack :: string
  awscfg_LoadDefaultConfig :: "string \<Rightarrow> goerr option"
  sqs_Init :: "string \<Rightarrow> goerr option"
  redisFifo_Init :: "string \<Rightarrow> goerr option"
  postgres_Connect :: "PostgresConfig \<Rightarrow> goerr option"
  postgres_Init :: "PostgresConfig \<Rightarrow> goerr option"
  dynamodb_Connect :: "string \<Rightarrow> goerr option"
  dynamodb_Init :: "string \<Rightarrow> goerr option"
  time_LoadLocation :: "string \<Rightarrow> goerr option"
  managerCfg_Validate :: "Config \<Rightarrow> goerr option"
  apiCfg_Validate :: "Config \<Rightarrow> goerr option"
  fs_startup_manager :: files
  fs_startup_api :: files
  errg_Wait :: "goerr option"

section \<open>Backend clients (logger.go)\<close>

datatype redis_client = RedisClient RedisConfig

datatype fifo_queue =
    SQSClient string
  | RedisFifoQueue string
  | InMemoryFifoQueue string "64 word" "64 word"

datatype database = DynamoDBClient string | PostgresClient PostgresConfig

definition newRedisClient :: "RedisConfig \<Rightarrow> goerr + redis_client" where
  "newRedisClient cfg =
     (if Addr cfg = [] then Inl (ErrText ''redis address is empty'')
      else Inr (RedisClient cfg))"

text \<open>
  \<open>createAwsCfg\<close>; the AWS configuration it builds is not inspected by the program, only
  whether it could be built.
\<close>

definition createAwsCfg :: "world \<Rightarrow> AwsConfig \<Rightarrow> goerr option \<times> ('m, 'a) event list" where
  "createAwsCfg W c =
     (if Region c = [] then (Some (ErrText ''cannot create AWS config with empty region''), [])
      else
        (case awscfg_LoadDefaultConfig W (Region c) of
           Some err \<Rightarrow> (Some err, [])
         | None \<Rightarrow>
             if Key c = [] \<and> AssumeRole c = []
             then (None, [EvLog InfoLevel ''Using default AWS credentials'' []])
             else
               (None,
                (if Key c \<noteq> []
                 then [EvLog InfoLevel ''Using static AWS credentials with key %s'' [AStr (Key c)]]
                 else []) @
                (if AssumeRole c \<noteq> []
                 then [EvLog InfoLevel ''Using assumed AWS credentials with role %s''
                         [AStr (AssumeRole c)]]
                 else []))))"

definition newSQSClient ::
  "world \<Rightarrow> AwsConfig \<Rightarrow> SqsQueueConfig \<Rightarrow> (goerr + fifo_queue) \<times> ('m, 'a) event list" where
  "newSQSClient W cfg queueCfg =
     (case createAwsCfg W cfg of
        (Some err, evs) \<Rightarrow> (Inl err, evs)
      | (None, evs) \<Rightarrow>
          (case sqs_Init W (QueueName queueCfg) of
             Some err \<Rightarrow> (Inl err, evs)
           | None \<Rightarrow> (Inr (SQSClient (QueueName queueCfg)), evs)))"

definition newAlertQueue ::
  "('m, 'a) lib \<Rightarrow> world \<Rightarrow> Config \<Rightarrow> (goerr + fifo_queue) \<times> ('m, 'a) event list" where
  "newAlertQueue L W cfg =
     (let mode = strings_ToLower L (QueueMode cfg) in
      if mode = ''sqs'' then newSQSClient W (Aws cfg) (AlertQueue (Aws cfg))
      else if mode = ''redis'' then
        (case redisFifo_Init W ''alerts'' of
           Some err \<Rightarrow> (Inl err, [])
         | None \<Rightarrow> (Inr (RedisFifoQueue ''alerts''), []))
      else if mode = ''in-memory'' then
        (Inr (InMemoryFifoQueue ''alerts'' 1000 (5 * time_Second)), [])
      else (Inl (ErrText (''unknown queue mode: '' @ QueueMode cfg)), []))"

definition newCommandQueue ::
  "('m, 'a) lib \<Rightarrow> world \<Rightarrow> Config \<Rightarrow> (goerr + fifo_queue) \<times> ('m, 'a) event list" where
  "newCommandQueue L W cfg =
     (let mode = strings_ToLower L (QueueMode cfg) in
      if mode = ''sqs'' then newSQSClient W (Aws cfg) (CommandQueue (Aws cfg))
      else if mode = ''redis'' then
        (case redisFifo_Init W ''commands'' of
           Some err \<Rightarrow> (Inl err, [])
         | None \<Rightarrow> (Inr (RedisFifoQueue ''commands''), []))
      else if mode = ''in-memory'' then
        (Inr (InMemoryFifoQueue ''commands'' 1000 (5 * time_Second)), [])
      else if mode = [] then (Inl (ErrText ''queue mode is not set (QUEUE_MODE=<mode>)''), [])
      else (Inl (ErrText (''unknown queue mode: '' @ QueueMode cfg)), []))"

definition newPostgresClient ::
  "world \<Rightarrow> PostgresConfig \<Rightarrow> (goerr + database) \<times> ('m, 'a) event list" where
  "newPostgresClient W cfg =
     (if Host cfg = [] then (Inl (ErrText ''postgres host is empty''), [])
      else
        (case postgres_Connect W cfg of
           Some err \<Rightarrow> (Inl err, [])
         | None \<Rightarrow>
             (let evs = [EvLog InfoLevel ''Connected to Postgres on %s:%d''
                           [AStr (Host cfg), AInt (sint (Port cfg))]] in
              case postgres_Init W cfg of
                Some err \<Rightarrow> (Inl err, evs)
              | None \<Rightarrow>
                  (Inr (PostgresClient cfg),
                   evs @ [EvLog InfoLevel ''Initialized Postgres database %s''
                            [AStr (Database cfg)]]))))"

definition newDynamoDBClient ::
  "world \<Rightarrow> AwsConfig \<Rightarrow> (goerr + database) \<times> ('m, 'a) event list" where
  "newDynamoDBClient W cfg =
     (case createAwsCfg W cfg of
        (Some err, evs) \<Rightarrow> (Inl err, evs)
      | (None, evs) \<Rightarrow>
          (case dynamodb_Connect W (TableName (DynamoDB cfg)) of
             Some err \<Rightarrow> (Inl (ErrWrap ''failed to connect to DynamoDB: '' err), evs)
           | None \<Rightarrow>
               (let evs = evs @ [EvLog InfoLevel ''Connected to DynamoDB table %s''
                                   [AStr (TableName (DynamoDB cfg))]] in
                case dynamodb_Init W (TableName (DynamoDB cfg)) of
                  Some err \<Rightarrow>
                    (Inl (ErrWrap ''failed to initialize DynamoDB client: '' err), evs)
                | None \<Rightarrow>
                    (Inr (DynamoDBClient (TableName (DynamoDB cfg))),
                     evs @ [EvLog InfoLevel ''Initialized DynamoDB client for table %s''
                              [AStr (TableName (DynamoDB cfg))]]))))"

definition newDatabase ::
  "('m, 'a) lib \<Rightarrow> world \<Rightarrow> Config \<Rightarrow> (goerr + database) \<times> ('m, 'a) event list" where
  "newDatabase L W cfg =
     (let mode = strings_ToLower L (DatabaseMode cfg) in
      if mode = ''dynamodb'' then newDynamoDBClient W (Aws cfg)
      else if mode = ''postgres'' then newPostgresClient W (Postgres cfg)
      else if mode = [] then
        (Inl (ErrText ''database mode is not set (DATABASE_MODE=<mode>)''), [])
      else (Inl (ErrText (''unknown database mode: '' @ DatabaseMode cfg)), []))"

definition getLocation :: "world \<Rightarrow> Config \<Rightarrow> unit outcome" where
  "getLocation W cfg =
     (case time_LoadLocation W (Location cfg) of
        Some err \<Rightarrow>
          Panic (PanicError (ErrWrap (''failed to load location '' @ Location cfg @ '': '') err))
      | None \<Rightarrow> Ok ())"

section \<open>The main implementation (main.go, \<open>mainImpl\<close>)\<close>

text \<open>
  A stretch of \<open>mainImpl\<close> with the events it adds. \<open>andThen\<close> runs the rest after a
  stretch that goes on. \<open>orReturn prefix\<close> is the statement
  \<open>if err != nil { return fmt.Errorf(prefix + "%w", err) }\<close> after a call.
\<close>

type_synonym ('x, 'm, 'a) stretch = "'x outcome \<times> ('m, 'a) event list"

definition andThen ::
  "('x, 'm, 'a) stretch \<Rightarrow> ('x \<Rightarrow> ('y, 'm, 'a) stretch) \<Rightarrow> ('y, 'm, 'a) stretch" where
  "andThen m f =
     (case m of
        (Ok x, evs) \<Rightarrow> (case f x of (r, evs') \<Rightarrow> (r, evs @ evs'))
      | (Return e, evs) \<Rightarrow> (Return e, evs)
      | (Panic p, evs) \<Rightarrow> (Panic p, evs))"

definition orReturn ::
  "string \<Rightarrow> (goerr + 'x) \<times> ('m, 'a) event list \<Rightarrow> ('x, 'm, 'a) stretch" where
  "orReturn prefix r =
     (case r of
        (Inl err, evs) \<Rightarrow> (Return (ErrWrap prefix err), evs)
      | (Inr x, evs) \<Rightarrow> (Ok x, evs))"

definition validated :: "goerr option \<Rightarrow> goerr + unit" where
  "validated r = (case r of Some err \<Rightarrow> Inl err | None \<Rightarrow> Inr ())"

text \<open>
  The body of \<open>mainImpl\<close>, lines 29 to 158. \<open>newLogger\<close>, \<open>newCacheStore\<close>,
  \<open>NewRedisChannelLocker\<close>, \<open>managerpkg.New\<close> and \<open>api.New\<close> neither fail nor act on the
  outside; the refresh loop is started with the two fingerprints of the startup reads.
  The value of the body is what \<open>errg.Wait()\<close> returns.
\<close>

definition mainImpl_body ::
  "('m, 'a) lib \<Rightarrow> world \<Rightarrow> (goerr option, 'm, 'a) stretch" where
  "mainImpl_body L W =
     andThen (Ok (), [EvGo G_handleSignals]) (\<lambda>_.
     andThen (config_New L (os_env W), []) (\<lambda>cfg.
     andThen (Ok (), if EnableMetrics cfg then [EvGo (G_metricsServer (MetricsPort cfg))] else [])
       (\<lambda>_.
     andThen (orReturn ''failed to create redis client: '' (newRedisClient (Redis cfg), []))
       (\<lambda>redisClient.
     andThen (orReturn ''failed to create alert queue: '' (newAlertQueue L W cfg))
       (\<lambda>alertQueue.
     andThen (orReturn ''failed to create command queue: '' (newCommandQueue L W cfg))
       (\<lambda>commandQueue.
     andThen (orReturn ''failed to create database client: '' (newDatabase L W cfg)) (\<lambda>db.
     andThen (getLocation W cfg, []) (\<lambda>_.
     andThen (orReturn ''invalid manager configuration: ''
                (validated (managerCfg_Validate W cfg), [])) (\<lambda>_.
     andThen (orReturn ''failed to read manager settings: ''
                (readManagerSettings L (fs_startup_manager W) (ManagerSettingsFilename cfg),
                 [EvReadFile (filepath_Clean L (ManagerSettingsFilename cfg))]))
       (\<lambda>(managerSettings, managerSettingsHash).
     andThen (orReturn ''invalid API configuration: ''
                (validated (apiCfg_Validate W cfg), [])) (\<lambda>_.
     andThen (orReturn ''failed to read API settings: ''
                (readAPISettings L (fs_startup_api W) (APISettingsFilename cfg),
                 [EvReadFile (filepath_Clean L (APISettingsFilename cfg))]))
       (\<lambda>(apiSettings, apiSettingsHash).
     (Ok (errg_Wait W),
      [EvGo G_apiServer, EvGo G_manager,
       EvGo (G_refreshSettings managerSettingsHash apiSettingsHash)])))))))))))))"

text \<open>
  \<open>mainImpl\<close> with its deferred \<open>recover\<close>: a panic of the body becomes the returned
  error \<open>fmt.Errorf("panic: %v\n%s", r, debug.Stack())\<close>.
\<close>

definition mainImpl :: "('m, 'a) lib \<Rightarrow> world \<Rightarrow> goerr option \<times> ('m, 'a) event list" where
  "mainImpl L W =
     (case mainImpl_body L W of
        (Ok retErr, evs) \<Rightarrow> (retErr, evs)
      | (Return err, evs) \<Rightarrow> (Some err, evs)
      | (Panic r, evs) \<Rightarrow>
          (Some (ErrText (''panic: '' @ fmt_v r @ [CHR 0x0A] @ debug_Stack W)), evs))"

subsection \<open>Process exit (main.go, \<open>exitMain\<close>)\<close>

text \<open>
  \<open>exitMain\<close> ends in \<open>os.Exit(returnCode)\<close>: the model returns the code and what was
  logged before. The function is the same in the flexible and in the minimal example.
\<close>

definition exitMain :: "goerr option \<Rightarrow> int \<times> ('m, 'a) event list" where
  "exitMain err =
     (case err of
        None \<Rightarrow> (0, [])
      | Some e \<Rightarrow>
          if errors_Is_Canceled e
          then (0, [EvLog InfoLevel ''Application canceled: %s'' [AErr e]])
          else (1, [EvLog ErrorLevel ''Application failed: %s'' [AErr e]]))"

text \<open>\<open>main\<close>: the exit code of the process and everything it did.\<close>

definition main :: "('m, 'a) lib \<Rightarrow> world \<Rightarrow> int \<times> ('m, 'a) event list" where
  "main L W =
     (case mainImpl L W of
        (err, evs) \<Rightarrow> (case exitMain err of (returnCode, logged) \<Rightarrow> (returnCode, evs @ logged)))"

text \<open>The events that start the API server, the manager or the refresh loop.\<close>

fun is_service_start :: "('m, 'a) event \<Rightarrow> bool" where
  "is_service_start (EvGo G_apiServer) = True"
| "is_service_start (EvGo G_manager) = True"
| "is_service_start (EvGo (G_refreshSettings mh ah)) = True"
| "is_service_start e = False"

section \<open>Notions used to state the properties\<close>

text \<open>The fingerprint a settings read of either kind returns, when it succeeds.\<close>

datatype kind = ManagerKind | APIKind

definition read_fingerprint ::
  "('m, 'a) lib \<Rightarrow> kind \<Rightarrow> files \<Rightarrow> string \<Rightarrow> string option" where
  "read_fingerprint L k fs filename =
     (case k of
        ManagerKind \<Rightarrow>
          (case readManagerSettings L fs filename of Inl err \<Rightarrow> None | Inr (d, h) \<Rightarrow> Some h)
      | APIKind \<Rightarrow>
          (case readAPISettings L fs filename of Inl err \<Rightarrow> None | Inr (d, h) \<Rightarrow> Some h))"

text \<open>The events of \<open>mainImpl\<close> before the backends, and up to the database.\<close>

definition startup_events :: "Config \<Rightarrow> ('m, 'a) event list" where
  "startup_events cfg =
     EvGo G_handleSignals #
     (if EnableMetrics cfg then [EvGo (G_metricsServer (MetricsPort cfg))] else [])"

definition backend_events :: "('m, 'a) lib \<Rightarrow> world \<Rightarrow> Config \<Rightarrow> ('m, 'a) event list" where
  "backend_events L W cfg =
     startup_events cfg @ snd (newAlertQueue L W cfg) @ snd (newCommandQueue L W cfg) @
     snd (newDatabase L W cfg)"

section \<open>A small instance for evaluating the model\<close>

text \<open>
  The properties below hold for every instance of the library parameters and for every
  world. To run the model on concrete inputs, this section fixes one instance. Its
  documents are the raw bytes of a file; its unmarshalling rejects a file that starts
  with a tab; its digest is two bytes long (the length and the sum of the input) and
  stands in for SHA-256; its \<open>Atoi\<close> reads an optional sign and decimal digits within
  the range of a 64-bit integer; its \<open>ToLower\<close> lowers the ASCII letters; its
  \<open>filepath.Clean\<close> leaves a path as it is.
\<close>

definition sample_digest :: "byte list \<Rightarrow> byte list" where
  "sample_digest bs = [of_nat (length bs), sum_list bs]"

definition sample_unmarshal :: "byte list \<Rightarrow> string + byte list" where
  "sample_unmarshal bs =
     (case bs of
        [] \<Rightarrow> Inr []
      | b # _ \<Rightarrow> if b = 9 then Inl ''yaml: found character that cannot start any token''
                 else Inr bs)"

definition sample_ToLower :: "string \<Rightarrow> string" where
  "sample_ToLower s =
     map (\<lambda>c. if 65 \<le> (of_char c :: nat) \<and> (of_char c :: nat) \<le> 90
              then char_of ((of_char c :: nat) + 32) else c) s"

definition sample_Quote :: "string \<Rightarrow> string" where
  "sample_Quote s = [CHR 0x22] @ s @ [CHR 0x22]"

definition is_digit :: "char \<Rightarrow> bool" where
  "is_digit c = (48 \<le> (of_char c :: nat) \<and> (of_char c :: nat) \<le> 57)"

definition sample_Atoi :: "string \<Rightarrow> string + 64 word" where
  "sample_Atoi s =
     (let neg = (s \<noteq> [] \<and> hd s = CHR ''-'');
          ds = (if s \<noteq> [] \<and> (hd s = CHR ''-'' \<or> hd s = CHR ''+'') then tl s else s)
      in if ds = [] \<or> \<not> list_all is_digit ds
         then Inl (''strconv.Atoi: parsing '' @ sample_Quote s @ '': invalid syntax'')
         else
           (let n = foldl (\<lambda>acc c. 10 * acc + (int (of_char c) - 48)) 0 ds;
                v = (if neg then - n else n)
            in if v < - (2 ^ 63) \<or> 2 ^ 63 \<le> v
               then Inl (''strconv.Atoi: parsing '' @ sample_Quote s @ '': value out of range'')
               else Inr (word_of_int v)))"

definition sample_ParseBool :: "string \<Rightarrow> string + bool" where
  "sample_ParseBool s =
     (if s \<in> set [''1'', ''t'', ''T'', ''true'', ''TRUE'', ''True''] then Inr True
      else if s \<in> set [''0'', ''f'', ''F'', ''false'', ''FALSE'', ''False''] then Inr False
      else Inl (''strconv.ParseBool: parsing '' @ sample_Quote s @ '': invalid syntax''))"

definition sample_lib :: "(byte list, byte list) lib" where
  "sample_lib =
     \<lparr>sha256_digest = sample_digest,
      filepath_Clean = (\<lambda>p. p),
      strings_ToLower = sample_ToLower,
      strconv_Atoi = sample_Atoi,
      strconv_ParseBool = sample_ParseBool,
      yaml_Unmarshal_manager = sample_unmarshal,
      yaml_Unmarshal_api = sample_unmarshal\<rparr>"

definition sample_files :: "byte list \<Rightarrow> byte list \<Rightarrow> files" where
  "sample_files m a p =
     (if p = ''manager-settings.yaml'' then Inr m
      else if p = ''api-settings.yaml'' then Inr a
      else Inl (''open '' @ p @ '': no such file or directory''))"

definition sample_tick ::
  "byte list \<Rightarrow> byte list \<Rightarrow> goerr option \<Rightarrow> goerr option \<Rightarrow> (byte list, byte list) tick" where
  "sample_tick m a mu au =
     \<lparr>ctx_Done_first = False,
      fs_manager = sample_files m a,
      manager_UpdateSettings = (\<lambda>d. mu),
      fs_api = sample_files m a,
      apiServer_UpdateSettings = (\<lambda>d. au),
      cancel_in_cycle = False\<rparr>"

definition sample_cfg :: Config where
  "sample_cfg =
     \<lparr>LogJSON = True, Verbose = False, Location = ''Europe/Oslo'', RestPort = ''8080'',
      EncryptionKey = [], SkipDatabaseCache = False, EnableMetrics = True,
      MetricsPort = ''9090'', QueueMode = ''redis'', DatabaseMode = ''postgres'',
      ManagerSettingsFilename = ''manager-settings.yaml'',
      APISettingsFilename = ''api-settings.yaml'',
      Aws = \<lparr>Region = [], Key = [], SecretKey = [], SessionToken = [], AssumeRole = [],
             MaxRetryAttempts = 5, MaxRetryBackoffDelay = 30 * 1000000000, Concurrency = 10,
             SqsEndpoint = [],
             AlertQueue = \<lparr>QueueName = [], VisibilityTimeoutSeconds = 30,
                            MaxNumberOfMessages = 10, WaitTimeSeconds = 20\<rparr>,
             CommandQueue = \<lparr>QueueName = [], VisibilityTimeoutSeconds = 30,
                              MaxNumberOfMessages = 10, WaitTimeSeconds = 20\<rparr>,
             DynamoDB = \<lparr>TableName = []\<rparr>\<rparr>,
      Postgres = \<lparr>Host = [], Port = 0, User = [], PostgresConfig.Password = [], Database = [],
                  SSLMode = ''disable'', IssuesTable = ''issues'', AlertsTable = ''alerts'',
                  MoveMappingsTable = ''move_mappings'',
                  ChannelProcessingStateTable = ''channel_processing_state''\<rparr>,
      Slack = \<lparr>AppToken = [], BotToken = []\<rparr>,
      Redis = \<lparr>Addr = [], Username = [], Password = [], DB = 0\<rparr>\<rparr>"

definition sample_state :: "(byte list, byte list) rstate" where
  "sample_state = \<lparr>managerSettingsHash = ''0161'', apiSettingsHash = ''0162'', ctx_done = False, trace = []\<rparr>"

definition sample_world :: world where
  "sample_world =
     \<lparr>os_env = map_of [(''REDIS_ADDR'', ''localhost:6379''), (''QUEUE_MODE'', ''in-memory''),
                       (''POSTGRES_HOST'', ''localhost''), (''POSTGRES_PORT'', ''5432'')],
      debug_Stack = ''goroutine 1 [running]:'',
      awscfg_LoadDefaultConfig = (\<lambda>region. None),
      sqs_Init = (\<lambda>name. None),
      redisFifo_Init = (\<lambda>name. None),
      postgres_Connect = (\<lambda>cfg. None),
      postgres_Init = (\<lambda>cfg. None),
      dynamodb_Connect = (\<lambda>table. None),
      dynamodb_Init = (\<lambda>table. None),
      time_LoadLocation = (\<lambda>name. None),
      managerCfg_Validate = (\<lambda>cfg. None),
      apiCfg_Validate = (\<lambda>cfg. None),
      fs_startup_manager = sample_files [97] [98],
      fs_startup_api = sample_files [97] [98],
      errg_Wait = Some ErrCanceled\<rparr>"

section \<open>Worlds for evaluating the startup\<close>

text \<open>
  \<open>sample_world_cfg\<close> is the configuration that \<open>config.New\<close> reads from the
  environment of \<open>sample_world\<close>. The other worlds differ from \<open>sample_world\<close> in
  one respect each.
\<close>

definition sample_world_cfg :: Config where
  "sample_world_cfg =
     sample_cfg
       \<lparr>QueueMode := ''in-memory'',
        Postgres := (Postgres sample_cfg)\<lparr>Host := ''localhost'', Port := 5432\<rparr>,
        Redis := (Redis sample_cfg)\<lparr>Addr := ''localhost:6379''\<rparr>\<rparr>"

definition world_bad_env :: world where
  "world_bad_env =
     sample_world\<lparr>os_env := map_of [(''VERBOSE'', ''maybe''), (''REDIS_DB'', ''zero'')]\<rparr>"

definition world_no_redis :: world where
  "world_no_redis = sample_world\<lparr>os_env := map_of []\<rparr>"

definition world_unknown_queue :: world where
  "world_unknown_queue =
     sample_world\<lparr>os_env := map_of [(''REDIS_ADDR'', ''localhost:6379''),
                                      (''QUEUE_MODE'', ''Kafka'')]\<rparr>"

definition world_unknown_database :: world where
  "world_unknown_database =
     sample_world\<lparr>os_env := map_of [(''REDIS_ADDR'', ''localhost:6379''),
                                      (''QUEUE_MODE'', ''In-Memory''),
                                      (''DATABASE_MODE'', ''MySQL'')]\<rparr>"

definition world_cancelled_connect :: world where
  "world_cancelled_connect =
     sample_world\<lparr>postgres_Connect :=
       (\<lambda>cfg. Some (ErrWrap ''failed to connect to postgres: '' ErrCanceled))\<rparr>"

definition world_no_manager_file :: world where
  "world_no_manager_file =
     sample_world\<lparr>fs_startup_manager :=
       (\<lambda>p. Inl (''open '' @ p @ '': no such file or directory''))\<rparr>"

definition world_bad_api_yaml :: world where
  "world_bad_api_yaml = sample_world\<lparr>fs_startup_api := sample_files [97] [9]\<rparr>"

section \<open>Properties of the refresh cycle\<close>

subsection \<open>The two blocks of a cycle, case by case\<close>

lemma emit_simps [simp]:
  "trace (emit evs st) = trace st @ evs"
  "managerSettingsHash (emit evs st) = managerSettingsHash st"
  "apiSettingsHash (emit evs st) = apiSettingsHash st"
  "ctx_done (emit evs st) = ctx_done st"
  by (simp_all add: emit_def)

lemma new_events_append: "trace st' = trace st @ evs \<Longrightarrow> new_events st st' = evs"
  by (simp add: new_events_def)

lemma manager_updates_append [simp]:
  "manager_updates (xs @ ys) = manager_updates xs @ manager_updates ys"
  by (induction xs rule: manager_updates.induct) simp_all

lemma api_updates_append [simp]:
  "api_updates (xs @ ys) = api_updates xs @ api_updates ys"
  by (induction xs rule: api_updates.induct) simp_all

lemma readManagerSettings_Inr:
  assumes "fs (filepath_Clean L f) = Inr bytes" and "yaml_Unmarshal_manager L bytes = Inr d"
  shows "readManagerSettings L fs f = Inr (d, hash L bytes)"
  using assms by (simp add: readManagerSettings_def)

lemma readAPISettings_Inr:
  assumes "fs (filepath_Clean L f) = Inr bytes" and "yaml_Unmarshal_api L bytes = Inr d"
  shows "readAPISettings L fs f = Inr (d, hash L bytes)"
  using assms by (simp add: readAPISettings_def)

lemma refreshManager_read_failed:
  assumes "readManagerSettings L (fs_manager t) (ManagerSettingsFilename cfg) = Inl err"
  shows "refreshManager L cfg t st =
           emit [EvReadFile (filepath_Clean L (ManagerSettingsFilename cfg)),
                 EvLog ErrorLevel ''Failed to read manager settings: %s'' [AErr err]] st"
  using assms by (simp add: refreshManager_def emit_def)

lemma refreshManager_unchanged:
  assumes "readManagerSettings L (fs_manager t) (ManagerSettingsFilename cfg) = Inr (d, h)"
    and "h = managerSettingsHash st"
  shows "refreshManager L cfg t st =
           emit [EvReadFile (filepath_Clean L (ManagerSettingsFilename cfg))] st"
  using assms by (simp add: refreshManager_def emit_def)

lemma refreshManager_changed:
  assumes "readManagerSettings L (fs_manager t) (ManagerSettingsFilename cfg) = Inr (d, h)"
    and "h \<noteq> managerSettingsHash st"
  shows "refreshManager L cfg t st =
           (emit ([EvReadFile (filepath_Clean L (ManagerSettingsFilename cfg)),
                   EvManagerUpdateSettings d] @
                  (case manager_UpdateSettings t d of
                     Some err \<Rightarrow>
                       [EvLog ErrorLevel ''Failed to update manager settings: %s'' [AErr err]]
                   | None \<Rightarrow> [])) st)
           \<lparr>managerSettingsHash := h\<rparr>"
  using assms by (simp add: refreshManager_def emit_def split: option.splits)

lemma refreshAPI_read_failed:
  assumes "readAPISettings L (fs_api t) (APISettingsFilename cfg) = Inl err"
  shows "refreshAPI L cfg t st =
           emit [EvReadFile (filepath_Clean L (APISettingsFilename cfg)),
                 EvLog ErrorLevel ''Failed to read API settings: %s'' [AErr err]] st"
  using assms by (simp add: refreshAPI_def emit_def)

lemma refreshAPI_unchanged:
  assumes "readAPISettings L (fs_api t) (APISettingsFilename cfg) = Inr (d, h)"
    and "h = apiSettingsHash st"
  shows "refreshAPI L cfg t st =
           emit [EvReadFile (filepath_Clean L (APISettingsFilename cfg))] st"
  using assms by (simp add: refreshAPI_def emit_def)

lemma refreshAPI_changed:
  assumes "readAPISettings L (fs_api t) (APISettingsFilename cfg) = Inr (d, h)"
    and "h \<noteq> apiSettingsHash st"
  shows "refreshAPI L cfg t st =
           (emit ([EvReadFile (filepath_Clean L (APISettingsFilename cfg)),
                   EvAPIUpdateSettings d] @
                  (case apiServer_UpdateSettings t d of
                     Some err \<Rightarrow>
                       [EvLog ErrorLevel ''Failed to update API settings: %s'' [AErr err]]
                   | None \<Rightarrow> [])) st)
           \<lparr>apiSettingsHash := h\<rparr>"
  using assms by (simp add: refreshAPI_def emit_def split: option.splits)

subsection \<open>Frame: each block leaves the other kind alone and only extends the trace\<close>

lemma refreshManager_frame:
  "apiSettingsHash (refreshManager L cfg t st) = apiSettingsHash st"
  "ctx_done (refreshManager L cfg t st) = ctx_done st"
  "\<exists>evs. trace (refreshManager L cfg t st) = trace st @ evs \<and> api_updates evs = []"
  by (auto simp: refreshManager_def emit_def Let_def split: sum.splits option.splits)

lemma refreshAPI_frame:
  "managerSettingsHash (refreshAPI L cfg t st) = managerSettingsHash st"
  "ctx_done (refreshAPI L cfg t st) = ctx_done st"
  "\<exists>evs. trace (refreshAPI L cfg t st) = trace st @ evs \<and> manager_updates evs = []"
  by (auto simp: refreshAPI_def emit_def Let_def split: sum.splits option.splits)

lemma refreshCycle_trace:
  "\<exists>mevs aevs.
     trace (refreshManager L cfg t st) = trace st @ mevs \<and>
     trace (refreshCycle L cfg t st) = trace st @ mevs @ aevs \<and>
     api_updates mevs = [] \<and> manager_updates aevs = []"
proof -
  obtain mevs where m: "trace (refreshManager L cfg t st) = trace st @ mevs" "api_updates mevs = []"
    using refreshManager_frame(3) by blast
  obtain aevs where a:
    "trace (refreshCycle L cfg t st) = trace (refreshManager L cfg t st) @ aevs"
    "manager_updates aevs = []"
    unfolding refreshCycle_def using refreshAPI_frame(3) by blast
  from m a show ?thesis by simp
qed

lemma new_events_cycle:
  "new_events st (refreshCycle L cfg t st) =
     new_events st (refreshManager L cfg t st) @
     new_events (refreshManager L cfg t st) (refreshCycle L cfg t st)"
proof -
  obtain mevs aevs where
    "trace (refreshManager L cfg t st) = trace st @ mevs"
    "trace (refreshCycle L cfg t st) = trace st @ mevs @ aevs"
    using refreshCycle_trace by blast
  then show ?thesis by (simp add: new_events_def)
qed

lemma manager_updates_cycle:
  "manager_updates (new_events st (refreshCycle L cfg t st)) =
   manager_updates (new_events st (refreshManager L cfg t st))"
proof -
  obtain mevs aevs where
    "trace (refreshManager L cfg t st) = trace st @ mevs"
    "trace (refreshCycle L cfg t st) = trace st @ mevs @ aevs"
    "manager_updates aevs = []"
    using refreshCycle_trace by blast
  then show ?thesis by (simp add: new_events_def)
qed

lemma api_updates_cycle:
  "api_updates (new_events st (refreshCycle L cfg t st)) =
   api_updates (new_events (refreshManager L cfg t st) (refreshCycle L cfg t st))"
proof -
  obtain mevs aevs where
    "trace (refreshManager L cfg t st) = trace st @ mevs"
    "trace (refreshCycle L cfg t st) = trace st @ mevs @ aevs"
    "api_updates mevs = []"
    using refreshCycle_trace by blast
  then show ?thesis by (simp add: new_events_def)
qed

lemma refreshCycle_managerSettingsHash:
  "managerSettingsHash (refreshCycle L cfg t st) = managerSettingsHash (refreshManager L cfg t st)"
  by (simp add: refreshCycle_def refreshAPI_frame)

lemma refreshAPI_depends_on_api_hash:
  assumes "apiSettingsHash st1 = apiSettingsHash st2"
  shows "apiSettingsHash (refreshAPI L cfg t st1) = apiSettingsHash (refreshAPI L cfg t st2)"
    and "new_events st1 (refreshAPI L cfg t st1) = new_events st2 (refreshAPI L cfg t st2)"
  using assms
  by (auto simp: refreshAPI_def emit_def new_events_def Let_def split: sum.splits option.splits)

lemma ReadFile_in_refreshManager:
  "EvReadFile (filepath_Clean L (ManagerSettingsFilename cfg))
     \<in> set (new_events st (refreshManager L cfg t st))"
  by (auto simp: refreshManager_def emit_def new_events_def Let_def split: sum.splits option.splits)

lemma ReadFile_in_refreshAPI:
  "EvReadFile (filepath_Clean L (APISettingsFilename cfg))
     \<in> set (new_events st (refreshAPI L cfg t st))"
  by (auto simp: refreshAPI_def emit_def new_events_def Let_def split: sum.splits option.splits)

subsection \<open>A changed file\<close>

text \<open>
  C2. In a refresh cycle in which a settings file is read and parsed and its fingerprint
  differs from the stored one, \<open>UpdateSettings\<close> of that kind's service is called
  exactly once in the cycle, with the parsed document; when the call returns nil, the
  stored fingerprint of that kind is the fingerprint of the new content afterwards.
  The first conjunct is about the manager settings, the second about the API settings.
\<close>

theorem change_triggers_one_update:
  "(fs_manager t (filepath_Clean L (ManagerSettingsFilename cfg)) = Inr bytes \<and>
    yaml_Unmarshal_manager L bytes = Inr d \<and>
    hash L bytes \<noteq> managerSettingsHash st
    \<longrightarrow> manager_updates (new_events st (refreshCycle L cfg t st)) = [d] \<and>
        (manager_UpdateSettings t d = None
         \<longrightarrow> managerSettingsHash (refreshCycle L cfg t st) = hash L bytes)) \<and>
   (fs_api t (filepath_Clean L (APISettingsFilename cfg)) = Inr bytes' \<and>
    yaml_Unmarshal_api L bytes' = Inr d' \<and>
    hash L bytes' \<noteq> apiSettingsHash st
    \<longrightarrow> api_updates (new_events st (refreshCycle L cfg t st)) = [d'] \<and>
        (apiServer_UpdateSettings t d' = None
         \<longrightarrow> apiSettingsHash (refreshCycle L cfg t st) = hash L bytes'))"
proof (intro conjI impI; (elim conjE)?)
  assume rd: "fs_manager t (filepath_Clean L (ManagerSettingsFilename cfg)) = Inr bytes"
    "yaml_Unmarshal_manager L bytes = Inr d" and ne: "hash L bytes \<noteq> managerSettingsHash st"
  from rd have "readManagerSettings L (fs_manager t) (ManagerSettingsFilename cfg) = Inr (d, hash L bytes)"
    by (rule readManagerSettings_Inr)
  note ch = refreshManager_changed [OF this ne]
  show "manager_updates (new_events st (refreshCycle L cfg t st)) = [d]"
    unfolding manager_updates_cycle by (simp add: ch new_events_def split: option.splits)
  show "managerSettingsHash (refreshCycle L cfg t st) = hash L bytes"
    by (simp add: refreshCycle_managerSettingsHash ch)
next
  let ?st = "refreshManager L cfg t st"
  assume rd: "fs_api t (filepath_Clean L (APISettingsFilename cfg)) = Inr bytes'"
    "yaml_Unmarshal_api L bytes' = Inr d'" and ne: "hash L bytes' \<noteq> apiSettingsHash st"
  from ne have ne': "hash L bytes' \<noteq> apiSettingsHash ?st"
    by (simp add: refreshManager_frame)
  from rd have "readAPISettings L (fs_api t) (APISettingsFilename cfg) = Inr (d', hash L bytes')"
    by (rule readAPISettings_Inr)
  note ch = refreshAPI_changed [OF this ne']
  show "api_updates (new_events st (refreshCycle L cfg t st)) = [d']"
    unfolding api_updates_cycle by (simp add: refreshCycle_def ch new_events_def split: option.splits)
  show "apiSettingsHash (refreshCycle L cfg t st) = hash L bytes'"
    by (simp add: refreshCycle_def ch)
qed

theorem change_triggers_one_update_witness:
  "fs_manager (sample_tick [97, 97] [98, 99] None None)
     (filepath_Clean sample_lib (ManagerSettingsFilename sample_cfg)) = Inr [97, 97] \<and>
   yaml_Unmarshal_manager sample_lib [97, 97] = Inr [97, 97] \<and>
   hash sample_lib [97, 97] \<noteq> managerSettingsHash sample_state \<and>
   manager_UpdateSettings (sample_tick [97, 97] [98, 99] None None) [97, 97] = None \<and>
   manager_updates (new_events sample_state
     (refreshCycle sample_lib sample_cfg (sample_tick [97, 97] [98, 99] None None) sample_state))
     = [[97, 97]] \<and>
   managerSettingsHash
     (refreshCycle sample_lib sample_cfg (sample_tick [97, 97] [98, 99] None None) sample_state)
     = hash sample_lib [97, 97] \<and>
   fs_api (sample_tick [97, 97] [98, 99] None None)
     (filepath_Clean sample_lib (APISettingsFilename sample_cfg)) = Inr [98, 99] \<and>
   yaml_Unmarshal_api sample_lib [98, 99] = Inr [98, 99] \<and>
   hash sample_lib [98, 99] \<noteq> apiSettingsHash sample_state \<and>
   apiServer_UpdateSettings (sample_tick [97, 97] [98, 99] None None) [98, 99] = None \<and>
   api_updates (new_events sample_state
     (refreshCycle sample_lib sample_cfg (sample_tick [97, 97] [98, 99] None None) sample_state))
     = [[98, 99]] \<and>
   apiSettingsHash
     (refreshCycle sample_lib sample_cfg (sample_tick [97, 97] [98, 99] None None) sample_state)
     = hash sample_lib [98, 99]"
proof -
  have m: "fs_manager (sample_tick [97, 97] [98, 99] None None)
       (filepath_Clean sample_lib (ManagerSettingsFilename sample_cfg)) = Inr [97, 97]"
    "yaml_Unmarshal_manager sample_lib [97, 97] = Inr [97, 97]"
    "hash sample_lib [97, 97] \<noteq> managerSettingsHash sample_state"
    "manager_UpdateSettings (sample_tick [97, 97] [98, 99] None None) [97, 97] = None"
    by code_simp+
  have a: "fs_api (sample_tick [97, 97] [98, 99] None None)
       (filepath_Clean sample_lib (APISettingsFilename sample_cfg)) = Inr [98, 99]"
    "yaml_Unmarshal_api sample_lib [98, 99] = Inr [98, 99]"
    "hash sample_lib [98, 99] \<noteq> apiSettingsHash sample_state"
    "apiServer_UpdateSettings (sample_tick [97, 97] [98, 99] None None) [98, 99] = None"
    by code_simp+
  from m a change_triggers_one_update
    [where L = sample_lib and cfg = sample_cfg and st = sample_state
       and t = "sample_tick [97, 97] [98, 99] None None"
       and bytes = "[97, 97]" and d = "[97, 97]" and bytes' = "[98, 99]" and d' = "[98, 99]"]
  show ?thesis by blast
qed

text \<open>
  C1, as amended. The claim says that a failed update leaves the stored fingerprint at
  its old value, so that the next cycle tries the same update again. The code assigns
  the new fingerprint after the update call whether or not the call failed (lines 177
  and 188). What holds: when \<open>UpdateSettings\<close> returns an error in such a cycle, the
  error is logged, the stored fingerprint of that kind is the fingerprint of the new
  content all the same, and the next cycle that reads the same bytes calls no update
  for that kind. The first conjunct is about the manager settings, the second about
  the API settings.
\<close>

theorem failed_update_is_not_retried:
  "(fs_manager t (filepath_Clean L (ManagerSettingsFilename cfg)) = Inr bytes \<and>
    yaml_Unmarshal_manager L bytes = Inr d \<and>
    hash L bytes \<noteq> managerSettingsHash st \<and>
    manager_UpdateSettings t d = Some err \<and>
    fs_manager t' (filepath_Clean L (ManagerSettingsFilename cfg)) = Inr bytes
    \<longrightarrow> EvLog ErrorLevel ''Failed to update manager settings: %s'' [AErr err]
          \<in> set (new_events st (refreshCycle L cfg t st)) \<and>
        managerSettingsHash (refreshCycle L cfg t st) = hash L bytes \<and>
        manager_updates (new_events (refreshCycle L cfg t st)
          (refreshCycle L cfg t' (refreshCycle L cfg t st))) = []) \<and>
   (fs_api t (filepath_Clean L (APISettingsFilename cfg)) = Inr bytes' \<and>
    yaml_Unmarshal_api L bytes' = Inr d' \<and>
    hash L bytes' \<noteq> apiSettingsHash st \<and>
    apiServer_UpdateSettings t d' = Some err' \<and>
    fs_api t' (filepath_Clean L (APISettingsFilename cfg)) = Inr bytes'
    \<longrightarrow> EvLog ErrorLevel ''Failed to update API settings: %s'' [AErr err']
          \<in> set (new_events st (refreshCycle L cfg t st)) \<and>
        apiSettingsHash (refreshCycle L cfg t st) = hash L bytes' \<and>
        api_updates (new_events (refreshCycle L cfg t st)
          (refreshCycle L cfg t' (refreshCycle L cfg t st))) = [])"
proof (intro conjI impI; (elim conjE)?)
  let ?st1 = "refreshCycle L cfg t st"
  assume rd: "fs_manager t (filepath_Clean L (ManagerSettingsFilename cfg)) = Inr bytes"
    "yaml_Unmarshal_manager L bytes = Inr d" and ne: "hash L bytes \<noteq> managerSettingsHash st"
    and up: "manager_UpdateSettings t d = Some err"
    and rd': "fs_manager t' (filepath_Clean L (ManagerSettingsFilename cfg)) = Inr bytes"
  from rd have
    "readManagerSettings L (fs_manager t) (ManagerSettingsFilename cfg) = Inr (d, hash L bytes)"
    by (rule readManagerSettings_Inr)
  note ch = refreshManager_changed [OF this ne]
  obtain mevs aevs where tr:
    "trace (refreshManager L cfg t st) = trace st @ mevs"
    "trace ?st1 = trace st @ mevs @ aevs"
    using refreshCycle_trace by blast
  from tr(1) have "mevs = [EvReadFile (filepath_Clean L (ManagerSettingsFilename cfg)),
      EvManagerUpdateSettings d,
      EvLog ErrorLevel ''Failed to update manager settings: %s'' [AErr err]]"
    by (simp add: ch up)
  with tr(2) show "EvLog ErrorLevel ''Failed to update manager settings: %s'' [AErr err]
      \<in> set (new_events st ?st1)"
    by (simp add: new_events_def)
  show h1: "managerSettingsHash ?st1 = hash L bytes"
    by (simp add: refreshCycle_managerSettingsHash ch)
  from rd' rd(2) have
    "readManagerSettings L (fs_manager t') (ManagerSettingsFilename cfg) = Inr (d, hash L bytes)"
    by (rule readManagerSettings_Inr)
  note un = refreshManager_unchanged [OF this h1 [symmetric]]
  show "manager_updates (new_events ?st1 (refreshCycle L cfg t' ?st1)) = []"
    unfolding manager_updates_cycle by (simp add: un new_events_def)
next
  let ?st1 = "refreshCycle L cfg t st"
  let ?stm = "refreshManager L cfg t st"
  let ?stm' = "refreshManager L cfg t' ?st1"
  assume rd: "fs_api t (filepath_Clean L (APISettingsFilename cfg)) = Inr bytes'"
    "yaml_Unmarshal_api L bytes' = Inr d'" and ne: "hash L bytes' \<noteq> apiSettingsHash st"
    and up: "apiServer_UpdateSettings t d' = Some err'"
    and rd': "fs_api t' (filepath_Clean L (APISettingsFilename cfg)) = Inr bytes'"
  from ne have ne': "hash L bytes' \<noteq> apiSettingsHash ?stm"
    by (simp add: refreshManager_frame)
  from rd have "readAPISettings L (fs_api t) (APISettingsFilename cfg) = Inr (d', hash L bytes')"
    by (rule readAPISettings_Inr)
  note ch = refreshAPI_changed [OF this ne']
  obtain mevs where tr: "trace ?stm = trace st @ mevs"
    using refreshManager_frame(3) by blast
  then show "EvLog ErrorLevel ''Failed to update API settings: %s'' [AErr err']
      \<in> set (new_events st ?st1)"
    by (simp add: refreshCycle_def ch up new_events_def)
  show h1: "apiSettingsHash ?st1 = hash L bytes'"
    by (simp add: refreshCycle_def ch)
  then have eq: "hash L bytes' = apiSettingsHash ?stm'"
    by (simp add: refreshManager_frame)
  from rd' rd(2) have
    "readAPISettings L (fs_api t') (APISettingsFilename cfg) = Inr (d', hash L bytes')"
    by (rule readAPISettings_Inr)
  note un = refreshAPI_unchanged [OF this eq]
  show "api_updates (new_events ?st1 (refreshCycle L cfg t' ?st1)) = []"
    unfolding api_updates_cycle
    by (simp add: refreshCycle_def un [unfolded refreshCycle_def] new_events_def)
qed

theorem failed_update_is_not_retried_witness:
  "fs_manager (sample_tick [97, 97] [98, 99] (Some (ErrText ''invalid settings''))
       (Some (ErrText ''invalid rules'')))
     (filepath_Clean sample_lib (ManagerSettingsFilename sample_cfg)) = Inr [97, 97] \<and>
   yaml_Unmarshal_manager sample_lib [97, 97] = Inr [97, 97] \<and>
   hash sample_lib [97, 97] \<noteq> managerSettingsHash sample_state \<and>
   manager_UpdateSettings (sample_tick [97, 97] [98, 99] (Some (ErrText ''invalid settings''))
       (Some (ErrText ''invalid rules''))) [97, 97] = Some (ErrText ''invalid settings'') \<and>
   fs_manager (sample_tick [97, 97] [98, 99] None None)
     (filepath_Clean sample_lib (ManagerSettingsFilename sample_cfg)) = Inr [97, 97] \<and>
   managerSettingsHash
     (refreshCycle sample_lib sample_cfg
        (sample_tick [97, 97] [98, 99] (Some (ErrText ''invalid settings''))
           (Some (ErrText ''invalid rules''))) sample_state) = hash sample_lib [97, 97] \<and>
   manager_updates (new_events
     (refreshCycle sample_lib sample_cfg
        (sample_tick [97, 97] [98, 99] (Some (ErrText ''invalid settings''))
           (Some (ErrText ''invalid rules''))) sample_state)
     (refreshCycle sample_lib sample_cfg (sample_tick [97, 97] [98, 99] None None)
        (refreshCycle sample_lib sample_cfg
           (sample_tick [97, 97] [98, 99] (Some (ErrText ''invalid settings''))
              (Some (ErrText ''invalid rules''))) sample_state))) = [] \<and>
   fs_api (sample_tick [97, 97] [98, 99] (Some (ErrText ''invalid settings''))
       (Some (ErrText ''invalid rules'')))
     (filepath_Clean sample_lib (APISettingsFilename sample_cfg)) = Inr [98, 99] \<and>
   yaml_Unmarshal_api sample_lib [98, 99] = Inr [98, 99] \<and>
   hash sample_lib [98, 99] \<noteq> apiSettingsHash sample_state \<and>
   apiServer_UpdateSettings (sample_tick [97, 97] [98, 99] (Some (ErrText ''invalid settings''))
       (Some (ErrText ''invalid rules''))) [98, 99] = Some (ErrText ''invalid rules'') \<and>
   fs_api (sample_tick [97, 97] [98, 99] None None)
     (filepath_Clean sample_lib (APISettingsFilename sample_cfg)) = Inr [98, 99] \<and>
   apiSettingsHash
     (refreshCycle sample_lib sample_cfg
        (sample_tick [97, 97] [98, 99] (Some (ErrText ''invalid settings''))
           (Some (ErrText ''invalid rules''))) sample_state) = hash sample_lib [98, 99] \<and>
   api_updates (new_events
     (refreshCycle sample_lib sample_cfg
        (sample_tick [97, 97] [98, 99] (Some (ErrText ''invalid settings''))
           (Some (ErrText ''invalid rules''))) sample_state)
     (refreshCycle sample_lib sample_cfg (sample_tick [97, 97] [98, 99] None None)
        (refreshCycle sample_lib sample_cfg
           (sample_tick [97, 97] [98, 99] (Some (ErrText ''invalid settings''))
              (Some (ErrText ''invalid rules''))) sample_state))) = []"
proof -
  let ?t = "sample_tick [97, 97] [98, 99] (Some (ErrText ''invalid settings''))
      (Some (ErrText ''invalid rules''))"
  let ?t' = "sample_tick [97, 97] [98, 99] None None"
  have m: "fs_manager ?t (filepath_Clean sample_lib (ManagerSettingsFilename sample_cfg))
      = Inr [97, 97]"
    "yaml_Unmarshal_manager sample_lib [97, 97] = Inr [97, 97]"
    "hash sample_lib [97, 97] \<noteq> managerSettingsHash sample_state"
    "manager_UpdateSettings ?t [97, 97] = Some (ErrText ''invalid settings'')"
    "fs_manager ?t' (filepath_Clean sample_lib (ManagerSettingsFilename sample_cfg))
      = Inr [97, 97]"
    by code_simp+
  have a: "fs_api ?t (filepath_Clean sample_lib (APISettingsFilename sample_cfg)) = Inr [98, 99]"
    "yaml_Unmarshal_api sample_lib [98, 99] = Inr [98, 99]"
    "hash sample_lib [98, 99] \<noteq> apiSettingsHash sample_state"
    "apiServer_UpdateSettings ?t [98, 99] = Some (ErrText ''invalid rules'')"
    "fs_api ?t' (filepath_Clean sample_lib (APISettingsFilename sample_cfg)) = Inr [98, 99]"
    by code_simp+
  from m a failed_update_is_not_retried
    [where L = sample_lib and cfg = sample_cfg and st = sample_state and t = ?t and t' = ?t'
       and bytes = "[97, 97]" and d = "[97, 97]" and bytes' = "[98, 99]" and d' = "[98, 99]"
       and err = "ErrText ''invalid settings''" and err' = "ErrText ''invalid rules''"]
  show ?thesis by blast
qed

text \<open>
  The claim C1 as stated fails: the manager settings file changes from the stored
  fingerprint \<open>0161\<close> to content with fingerprint \<open>02c2\<close>, the manager rejects the
  update, and the stored fingerprint is \<open>02c2\<close> afterwards, not \<open>0161\<close>; the next cycle
  over the same file calls no update.
\<close>

theorem failed_update_retry_counterexample:
  "readManagerSettings sample_lib
     (fs_manager (sample_tick [97, 97] [98] (Some (ErrText ''invalid settings'')) None))
     (ManagerSettingsFilename sample_cfg) = Inr ([97, 97], ''02c2'') \<and>
   managerSettingsHash sample_state = ''0161'' \<and>
   manager_UpdateSettings (sample_tick [97, 97] [98] (Some (ErrText ''invalid settings'')) None)
     [97, 97] = Some (ErrText ''invalid settings'') \<and>
   managerSettingsHash
     (refreshCycle sample_lib sample_cfg
        (sample_tick [97, 97] [98] (Some (ErrText ''invalid settings'')) None) sample_state)
     = ''02c2'' \<and>
   manager_updates (new_events
     (refreshCycle sample_lib sample_cfg
        (sample_tick [97, 97] [98] (Some (ErrText ''invalid settings'')) None) sample_state)
     (refreshCycle sample_lib sample_cfg
        (sample_tick [97, 97] [98] (Some (ErrText ''invalid settings'')) None)
        (refreshCycle sample_lib sample_cfg
           (sample_tick [97, 97] [98] (Some (ErrText ''invalid settings'')) None) sample_state)))
     = []"
  by code_simp

subsection \<open>An unchanged file\<close>

text \<open>
  C3. In a refresh cycle in which a settings file is read and parsed and its fingerprint
  equals the stored one, \<open>UpdateSettings\<close> is not called for that kind in the cycle and
  the stored fingerprint of that kind stays as it was. The first conjunct is about the
  manager settings, the second about the API settings.
\<close>

theorem unchanged_content_is_noop:
  "(fs_manager t (filepath_Clean L (ManagerSettingsFilename cfg)) = Inr bytes \<and>
    yaml_Unmarshal_manager L bytes = Inr d \<and>
    hash L bytes = managerSettingsHash st
    \<longrightarrow> manager_updates (new_events st (refreshCycle L cfg t st)) = [] \<and>
        managerSettingsHash (refreshCycle L cfg t st) = managerSettingsHash st) \<and>
   (fs_api t (filepath_Clean L (APISettingsFilename cfg)) = Inr bytes' \<and>
    yaml_Unmarshal_api L bytes' = Inr d' \<and>
    hash L bytes' = apiSettingsHash st
    \<longrightarrow> api_updates (new_events st (refreshCycle L cfg t st)) = [] \<and>
        apiSettingsHash (refreshCycle L cfg t st) = apiSettingsHash st)"
proof (intro conjI impI; (elim conjE)?)
  assume rd: "fs_manager t (filepath_Clean L (ManagerSettingsFilename cfg)) = Inr bytes"
    "yaml_Unmarshal_manager L bytes = Inr d" and eq: "hash L bytes = managerSettingsHash st"
  from rd have
    "readManagerSettings L (fs_manager t) (ManagerSettingsFilename cfg) = Inr (d, hash L bytes)"
    by (rule readManagerSettings_Inr)
  note un = refreshManager_unchanged [OF this eq]
  show "manager_updates (new_events st (refreshCycle L cfg t st)) = []"
    unfolding manager_updates_cycle by (simp add: un new_events_def)
  show "managerSettingsHash (refreshCycle L cfg t st) = managerSettingsHash st"
    by (simp add: refreshCycle_managerSettingsHash un)
next
  let ?st = "refreshManager L cfg t st"
  assume rd: "fs_api t (filepath_Clean L (APISettingsFilename cfg)) = Inr bytes'"
    "yaml_Unmarshal_api L bytes' = Inr d'" and eq: "hash L bytes' = apiSettingsHash st"
  from eq have eq': "hash L bytes' = apiSettingsHash ?st"
    by (simp add: refreshManager_frame)
  from rd have "readAPISettings L (fs_api t) (APISettingsFilename cfg) = Inr (d', hash L bytes')"
    by (rule readAPISettings_Inr)
  note un = refreshAPI_unchanged [OF this eq']
  show "api_updates (new_events st (refreshCycle L cfg t st)) = []"
    unfolding api_updates_cycle by (simp add: refreshCycle_def un new_events_def)
  show "apiSettingsHash (refreshCycle L cfg t st) = apiSettingsHash st"
    by (simp add: refreshCycle_def un refreshManager_frame)
qed

theorem unchanged_content_is_noop_witness:
  "fs_manager (sample_tick [97] [98] None None)
     (filepath_Clean sample_lib (ManagerSettingsFilename sample_cfg)) = Inr [97] \<and>
   yaml_Unmarshal_manager sample_lib [97] = Inr [97] \<and>
   hash sample_lib [97] = managerSettingsHash sample_state \<and>
   manager_updates (new_events sample_state
     (refreshCycle sample_lib sample_cfg (sample_tick [97] [98] None None) sample_state)) = [] \<and>
   managerSettingsHash
     (refreshCycle sample_lib sample_cfg (sample_tick [97] [98] None None) sample_state)
     = managerSettingsHash sample_state \<and>
   fs_api (sample_tick [97] [98] None None)
     (filepath_Clean sample_lib (APISettingsFilename sample_cfg)) = Inr [98] \<and>
   yaml_Unmarshal_api sample_lib [98] = Inr [98] \<and>
   hash sample_lib [98] = apiSettingsHash sample_state \<and>
   api_updates (new_events sample_state
     (refreshCycle sample_lib sample_cfg (sample_tick [97] [98] None None) sample_state)) = [] \<and>
   apiSettingsHash
     (refreshCycle sample_lib sample_cfg (sample_tick [97] [98] None None) sample_state)
     = apiSettingsHash sample_state"
proof -
  have m: "fs_manager (sample_tick [97] [98] None None)
       (filepath_Clean sample_lib (ManagerSettingsFilename sample_cfg)) = Inr [97]"
    "yaml_Unmarshal_manager sample_lib [97] = Inr [97]"
    "hash sample_lib [97] = managerSettingsHash sample_state"
    by code_simp+
  have a: "fs_api (sample_tick [97] [98] None None)
       (filepath_Clean sample_lib (APISettingsFilename sample_cfg)) = Inr [98]"
    "yaml_Unmarshal_api sample_lib [98] = Inr [98]"
    "hash sample_lib [98] = apiSettingsHash sample_state"
    by code_simp+
  from m a unchanged_content_is_noop
    [where L = sample_lib and cfg = sample_cfg and st = sample_state
       and t = "sample_tick [97] [98] None None"
       and bytes = "[97]" and d = "[97]" and bytes' = "[98]" and d' = "[98]"]
  show ?thesis by blast
qed

subsection \<open>Independence of the two kinds\<close>

text \<open>
  C4. A read or parse failure of one kind leaves that kind's stored fingerprint as it
  was and pushes no update for it, and the other kind is still processed in the same
  cycle: its file is read, and its fingerprint and its updates come out as its block
  alone produces them from the state before the cycle. First conjunct: the manager
  settings fail; second conjunct: the API settings fail.
\<close>

theorem settings_kinds_independent:
  "(readManagerSettings L (fs_manager t) (ManagerSettingsFilename cfg) = Inl err
    \<longrightarrow> managerSettingsHash (refreshCycle L cfg t st) = managerSettingsHash st \<and>
        manager_updates (new_events st (refreshCycle L cfg t st)) = [] \<and>
        EvReadFile (filepath_Clean L (APISettingsFilename cfg))
          \<in> set (new_events st (refreshCycle L cfg t st)) \<and>
        apiSettingsHash (refreshCycle L cfg t st) = apiSettingsHash (refreshAPI L cfg t st) \<and>
        api_updates (new_events st (refreshCycle L cfg t st)) =
          api_updates (new_events st (refreshAPI L cfg t st))) \<and>
   (readAPISettings L (fs_api t) (APISettingsFilename cfg) = Inl err'
    \<longrightarrow> apiSettingsHash (refreshCycle L cfg t st) = apiSettingsHash st \<and>
        api_updates (new_events st (refreshCycle L cfg t st)) = [] \<and>
        EvReadFile (filepath_Clean L (ManagerSettingsFilename cfg))
          \<in> set (new_events st (refreshCycle L cfg t st)) \<and>
        managerSettingsHash (refreshCycle L cfg t st) =
          managerSettingsHash (refreshManager L cfg t st) \<and>
        manager_updates (new_events st (refreshCycle L cfg t st)) =
          manager_updates (new_events st (refreshManager L cfg t st)))"
proof (intro conjI impI)
  let ?stm = "refreshManager L cfg t st"
  assume fail: "readManagerSettings L (fs_manager t) (ManagerSettingsFilename cfg) = Inl err"
  note rf = refreshManager_read_failed [OF fail]
  have same: "apiSettingsHash ?stm = apiSettingsHash st"
    by (simp add: refreshManager_frame)
  show "managerSettingsHash (refreshCycle L cfg t st) = managerSettingsHash st"
    by (simp add: refreshCycle_managerSettingsHash rf)
  show "manager_updates (new_events st (refreshCycle L cfg t st)) = []"
    unfolding manager_updates_cycle by (simp add: rf new_events_def)
  show "EvReadFile (filepath_Clean L (APISettingsFilename cfg))
      \<in> set (new_events st (refreshCycle L cfg t st))"
    unfolding new_events_cycle using ReadFile_in_refreshAPI [of L cfg ?stm t]
    by (simp add: refreshCycle_def)
  show "apiSettingsHash (refreshCycle L cfg t st) = apiSettingsHash (refreshAPI L cfg t st)"
    unfolding refreshCycle_def by (rule refreshAPI_depends_on_api_hash(1) [OF same])
  show "api_updates (new_events st (refreshCycle L cfg t st)) =
      api_updates (new_events st (refreshAPI L cfg t st))"
    by (simp only: api_updates_cycle)
      (simp only: refreshCycle_def refreshAPI_depends_on_api_hash(2) [OF same])
next
  let ?stm = "refreshManager L cfg t st"
  assume fail: "readAPISettings L (fs_api t) (APISettingsFilename cfg) = Inl err'"
  note rf = refreshAPI_read_failed [OF fail]
  show "apiSettingsHash (refreshCycle L cfg t st) = apiSettingsHash st"
    by (simp add: refreshCycle_def rf refreshManager_frame)
  show "api_updates (new_events st (refreshCycle L cfg t st)) = []"
    unfolding api_updates_cycle by (simp add: refreshCycle_def rf new_events_def)
  show "EvReadFile (filepath_Clean L (ManagerSettingsFilename cfg))
      \<in> set (new_events st (refreshCycle L cfg t st))"
    unfolding new_events_cycle using ReadFile_in_refreshManager [of L cfg st t] by simp
  show "managerSettingsHash (refreshCycle L cfg t st) = managerSettingsHash ?stm"
    by (rule refreshCycle_managerSettingsHash)
  show "manager_updates (new_events st (refreshCycle L cfg t st)) =
      manager_updates (new_events st ?stm)"
    by (rule manager_updates_cycle)
qed

theorem settings_kinds_independent_witness:
  "readManagerSettings sample_lib (fs_manager (sample_tick [9] [98, 99] None None))
     (ManagerSettingsFilename sample_cfg)
     = Inl (ErrWrap ''failed to unmarshal manager settings from manager-settings.yaml: ''
              (ErrText ''yaml: found character that cannot start any token'')) \<and>
   managerSettingsHash
     (refreshCycle sample_lib sample_cfg (sample_tick [9] [98, 99] None None) sample_state)
     = managerSettingsHash sample_state \<and>
   manager_updates (new_events sample_state
     (refreshCycle sample_lib sample_cfg (sample_tick [9] [98, 99] None None) sample_state)) = [] \<and>
   EvReadFile ''api-settings.yaml'' \<in> set (new_events sample_state
     (refreshCycle sample_lib sample_cfg (sample_tick [9] [98, 99] None None) sample_state)) \<and>
   apiSettingsHash
     (refreshCycle sample_lib sample_cfg (sample_tick [9] [98, 99] None None) sample_state)
     = ''02c5'' \<and>
   api_updates (new_events sample_state
     (refreshCycle sample_lib sample_cfg (sample_tick [9] [98, 99] None None) sample_state))
     = [[98, 99]] \<and>
   readAPISettings sample_lib (fs_api (sample_tick [97, 97] [9] None None))
     (APISettingsFilename sample_cfg)
     = Inl (ErrWrap ''failed to unmarshal API settings from api-settings.yaml: ''
              (ErrText ''yaml: found character that cannot start any token'')) \<and>
   apiSettingsHash
     (refreshCycle sample_lib sample_cfg (sample_tick [97, 97] [9] None None) sample_state)
     = apiSettingsHash sample_state \<and>
   api_updates (new_events sample_state
     (refreshCycle sample_lib sample_cfg (sample_tick [97, 97] [9] None None) sample_state)) = [] \<and>
   EvReadFile ''manager-settings.yaml'' \<in> set (new_events sample_state
     (refreshCycle sample_lib sample_cfg (sample_tick [97, 97] [9] None None) sample_state)) \<and>
   managerSettingsHash
     (refreshCycle sample_lib sample_cfg (sample_tick [97, 97] [9] None None) sample_state)
     = ''02c2'' \<and>
   manager_updates (new_events sample_state
     (refreshCycle sample_lib sample_cfg (sample_tick [97, 97] [9] None None) sample_state))
     = [[97, 97]]"
proof -
  let ?t = "sample_tick [9] [98, 99] None None"
  let ?t' = "sample_tick [97, 97] [9] None None"
  have m: "readManagerSettings sample_lib (fs_manager ?t) (ManagerSettingsFilename sample_cfg)
     = Inl (ErrWrap ''failed to unmarshal manager settings from manager-settings.yaml: ''
              (ErrText ''yaml: found character that cannot start any token''))"
    by code_simp
  have a: "readAPISettings sample_lib (fs_api ?t') (APISettingsFilename sample_cfg)
     = Inl (ErrWrap ''failed to unmarshal API settings from api-settings.yaml: ''
              (ErrText ''yaml: found character that cannot start any token''))"
    by code_simp
  have p: "filepath_Clean sample_lib (APISettingsFilename sample_cfg) = ''api-settings.yaml''"
    "filepath_Clean sample_lib (ManagerSettingsFilename sample_cfg) = ''manager-settings.yaml''"
    by code_simp+
  have alone: "apiSettingsHash (refreshAPI sample_lib sample_cfg ?t sample_state) = ''02c5''"
    "api_updates (new_events sample_state (refreshAPI sample_lib sample_cfg ?t sample_state))
      = [[98, 99]]"
    "managerSettingsHash (refreshManager sample_lib sample_cfg ?t' sample_state) = ''02c2''"
    "manager_updates (new_events sample_state
       (refreshManager sample_lib sample_cfg ?t' sample_state)) = [[97, 97]]"
    by code_simp+
  from m a alone
    settings_kinds_independent
      [where L = sample_lib and cfg = sample_cfg and st = sample_state and t = ?t
         and err = "ErrWrap ''failed to unmarshal manager settings from manager-settings.yaml: ''
              (ErrText ''yaml: found character that cannot start any token'')"]
    settings_kinds_independent
      [where L = sample_lib and cfg = sample_cfg and st = sample_state and t = ?t'
         and err' = "ErrWrap ''failed to unmarshal API settings from api-settings.yaml: ''
              (ErrText ''yaml: found character that cannot start any token'')"]
  show ?thesis unfolding p by metis
qed

subsection \<open>Cancellation\<close>

lemma refreshCycle_ctx_done [simp]:
  "ctx_done (refreshCycle L cfg t st) = ctx_done st"
  by (simp add: refreshCycle_def refreshAPI_frame refreshManager_frame)

lemma run_cycles_ctx_done [simp]:
  "ctx_done (run_cycles L cfg st ts) = ctx_done st"
  by (induction ts arbitrary: st) simp_all

lemma run_cycles_snoc:
  "run_cycles L cfg st (ts @ [t]) = refreshCycle L cfg t (run_cycles L cfg st ts)"
  by (induction ts arbitrary: st) simp_all

lemma refreshSettings_cancelled:
  "ctx_done st \<Longrightarrow> refreshSettings L cfg st ticks = (Some ErrCanceled, st)"
  by (cases ticks) simp_all

lemma refreshSettings_quiet_prefix:
  assumes "\<not> ctx_done st" and "\<forall>p \<in> set pre. \<not> ctx_Done_first p \<and> \<not> cancel_in_cycle p"
  shows "refreshSettings L cfg st (pre @ ticks) =
           refreshSettings L cfg (run_cycles L cfg st pre) ticks"
  using assms
proof (induction pre arbitrary: st)
  case Nil
  then show ?case by simp
next
  case (Cons p pre)
  have eq: "(refreshCycle L cfg p st)\<lparr>ctx_done := False\<rparr> = refreshCycle L cfg p st"
    using Cons.prems(1) by simp
  from Cons show ?case by (simp add: eq)
qed

lemma refreshSettings_returns_only_Canceled:
  "fst (refreshSettings L cfg st ts) = None \<or> fst (refreshSettings L cfg st ts) = Some ErrCanceled"
  by (induction ts arbitrary: st) simp_all

text \<open>
  C5. Let the context be cancelled for the first time in the iteration \<open>t\<close>, after the
  iterations \<open>pre\<close>: either while the \<open>select\<close> of \<open>t\<close> waits, or while the cycle of
  \<open>t\<close> runs. Then the loop returns \<open>context.Canceled\<close>. What it has done is exactly the
  cycles of \<open>pre\<close> in the first case and the cycles of \<open>pre\<close> and the whole cycle of \<open>t\<close>
  in the second; whatever the schedule \<open>rest\<close> holds afterwards, no file of it is read.
  A loop that finds the context cancelled when it enters the \<open>select\<close> returns at once.
\<close>

theorem cancellation_stops_the_loop:
  assumes "\<not> ctx_done st"
    and "\<forall>p \<in> set pre. \<not> ctx_Done_first p \<and> \<not> cancel_in_cycle p"
    and "ctx_Done_first t \<or> cancel_in_cycle t"
  shows "refreshSettings L cfg st (pre @ t # rest) =
           (Some ErrCanceled,
            (run_cycles L cfg st (if ctx_Done_first t then pre else pre @ [t]))
              \<lparr>ctx_done := True\<rparr>) \<and>
         filter is_ReadFile (trace (snd (refreshSettings L cfg st (pre @ t # rest)))) =
           filter is_ReadFile
             (trace (run_cycles L cfg st (if ctx_Done_first t then pre else pre @ [t]))) \<and>
         (ctx_done st' \<longrightarrow> refreshSettings L cfg st' ticks = (Some ErrCanceled, st'))"
proof -
  let ?st = "run_cycles L cfg st pre"
  have nd: "\<not> ctx_done ?st" using assms(1) by simp
  have step: "refreshSettings L cfg st (pre @ t # rest) = refreshSettings L cfg ?st (t # rest)"
    by (rule refreshSettings_quiet_prefix [OF assms(1,2)])
  have main: "refreshSettings L cfg st (pre @ t # rest) =
      (Some ErrCanceled,
       (run_cycles L cfg st (if ctx_Done_first t then pre else pre @ [t]))
         \<lparr>ctx_done := True\<rparr>)"
  proof (cases "ctx_Done_first t")
    case True
    then show ?thesis by (simp add: step)
  next
    case False
    with assms(3) have c: "cancel_in_cycle t" by simp
    have "refreshSettings L cfg ?st (t # rest) =
        refreshSettings L cfg ((refreshCycle L cfg t ?st)\<lparr>ctx_done := True\<rparr>) rest"
      using False nd c by simp
    also have "\<dots> = (Some ErrCanceled, (refreshCycle L cfg t ?st)\<lparr>ctx_done := True\<rparr>)"
      by (rule refreshSettings_cancelled) simp
    finally show ?thesis using False by (simp add: step run_cycles_snoc)
  qed
  moreover from main have
    "filter is_ReadFile (trace (snd (refreshSettings L cfg st (pre @ t # rest)))) =
     filter is_ReadFile
       (trace (run_cycles L cfg st (if ctx_Done_first t then pre else pre @ [t])))"
    by simp
  moreover have "ctx_done st' \<longrightarrow> refreshSettings L cfg st' ticks = (Some ErrCanceled, st')"
    by (simp add: refreshSettings_cancelled)
  ultimately show ?thesis by blast
qed

theorem cancellation_stops_the_loop_witness:
  "\<not> ctx_done sample_state \<and>
   \<not> ctx_Done_first (sample_tick [97, 97] [98] None None) \<and>
   \<not> cancel_in_cycle (sample_tick [97, 97] [98] None None) \<and>
   cancel_in_cycle ((sample_tick [97, 97] [9] None None)\<lparr>cancel_in_cycle := True\<rparr>) \<and>
   refreshSettings sample_lib sample_cfg sample_state
     [sample_tick [97, 97] [98] None None,
      (sample_tick [97, 97] [9] None None)\<lparr>cancel_in_cycle := True\<rparr>,
      sample_tick [100] [101] None None]
   = (Some ErrCanceled,
      \<lparr>managerSettingsHash = ''02c2'', apiSettingsHash = ''0162'', ctx_done = True,
       trace =
         [EvReadFile ''manager-settings.yaml'', EvManagerUpdateSettings [97, 97],
          EvReadFile ''api-settings.yaml'',
          EvReadFile ''manager-settings.yaml'',
          EvReadFile ''api-settings.yaml'',
          EvLog ErrorLevel ''Failed to read API settings: %s''
            [AErr (ErrWrap ''failed to unmarshal API settings from api-settings.yaml: ''
                     (ErrText ''yaml: found character that cannot start any token''))]]\<rparr>)"
proof -
  let ?p = "sample_tick [97, 97] [98] None None"
  let ?t = "(sample_tick [97, 97] [9] None None)\<lparr>cancel_in_cycle := True\<rparr>"
  have h: "\<not> ctx_done sample_state" "\<not> ctx_Done_first ?p" "\<not> cancel_in_cycle ?p"
    "cancel_in_cycle ?t" "\<not> ctx_Done_first ?t"
    by code_simp+
  have q: "\<forall>p \<in> set [?p]. \<not> ctx_Done_first p \<and> \<not> cancel_in_cycle p"
    using h by simp
  have c: "ctx_Done_first ?t \<or> cancel_in_cycle ?t"
    using h by simp
  have r: "(run_cycles sample_lib sample_cfg sample_state [?p, ?t])\<lparr>ctx_done := True\<rparr> =
      \<lparr>managerSettingsHash = ''02c2'', apiSettingsHash = ''0162'', ctx_done = True,
       trace =
         [EvReadFile ''manager-settings.yaml'', EvManagerUpdateSettings [97, 97],
          EvReadFile ''api-settings.yaml'',
          EvReadFile ''manager-settings.yaml'',
          EvReadFile ''api-settings.yaml'',
          EvLog ErrorLevel ''Failed to read API settings: %s''
            [AErr (ErrWrap ''failed to unmarshal API settings from api-settings.yaml: ''
                     (ErrText ''yaml: found character that cannot start any token''))]]\<rparr>"
    by code_simp
  from cancellation_stops_the_loop
    [OF h(1) q c, of sample_lib sample_cfg "[sample_tick [100] [101] None None]"] h r
  show ?thesis by simp
qed

subsection \<open>Fingerprints\<close>

text \<open>
  C8. The fingerprint a settings read returns depends on the bytes read and on nothing
  else: two reads that see the same bytes, of either kind, from any file system and
  under any file name, return the same fingerprint, the hex encoding of the SHA-256
  digest of the bytes.
\<close>

lemma hex_EncodeToString_example:
  "hex_EncodeToString [0x00, 0x0f, 0xa5, 0xff] = ''000fa5ff''"
  by code_simp

lemma length_hex_EncodeToString: "length (hex_EncodeToString bs) = 2 * length bs"
  by (induction bs) simp_all

lemma hash_eq: "hash L input = hex_EncodeToString (sha256_digest L input)"
  by (simp add: hash_def sha256_New_def hash_Write_def hash_Sum_def)

theorem fingerprint_is_function_of_bytes:
  assumes "read_fingerprint L k1 fs1 f1 = Some h1"
    and "read_fingerprint L k2 fs2 f2 = Some h2"
    and "fs1 (filepath_Clean L f1) = Inr bytes"
    and "fs2 (filepath_Clean L f2) = Inr bytes"
  shows "h1 = h2 \<and> h1 = hex_EncodeToString (sha256_digest L bytes)"
proof -
  have hash_eq: "hash L bytes = hex_EncodeToString (sha256_digest L bytes)"
    by (simp add: hash_def sha256_New_def hash_Write_def hash_Sum_def)
  have "h = hash L bytes"
    if "read_fingerprint L k fs f = Some h" and "fs (filepath_Clean L f) = Inr bytes"
    for k fs f h
    using that
    by (cases k)
      (auto simp: read_fingerprint_def readManagerSettings_def readAPISettings_def
        split: sum.splits)
  from this [OF assms(1,3)] this [OF assms(2,4)] hash_eq show ?thesis by simp
qed

theorem fingerprint_is_function_of_bytes_witness:
  "read_fingerprint sample_lib ManagerKind (sample_files [97, 98] [99]) ''manager-settings.yaml''
     = Some ''02c3'' \<and>
   read_fingerprint sample_lib APIKind (sample_files [100] [97, 98]) ''api-settings.yaml''
     = Some ''02c3'' \<and>
   sample_files [97, 98] [99] (filepath_Clean sample_lib ''manager-settings.yaml'')
     = Inr [97, 98] \<and>
   sample_files [100] [97, 98] (filepath_Clean sample_lib ''api-settings.yaml'') = Inr [97, 98] \<and>
   ''02c3'' = hex_EncodeToString (sha256_digest sample_lib [97, 98])"
proof -
  have h: "read_fingerprint sample_lib ManagerKind (sample_files [97, 98] [99])
      ''manager-settings.yaml'' = Some ''02c3''"
    "read_fingerprint sample_lib APIKind (sample_files [100] [97, 98]) ''api-settings.yaml''
      = Some ''02c3''"
    "sample_files [97, 98] [99] (filepath_Clean sample_lib ''manager-settings.yaml'')
      = Inr [97, 98]"
    "sample_files [100] [97, 98] (filepath_Clean sample_lib ''api-settings.yaml'') = Inr [97, 98]"
    by code_simp+
  from fingerprint_is_function_of_bytes [OF h] h show ?thesis by simp
qed

section \<open>Properties of startup and exit\<close>

subsection \<open>Exit codes\<close>

lemma unwrap_chain_unfold:
  "unwrap_chain e = e # (case Unwrap e of None \<Rightarrow> [] | Some e' \<Rightarrow> unwrap_chain e')"
  by (cases e) simp_all

lemma errors_Is_Canceled_unfold:
  "errors_Is_Canceled e \<longleftrightarrow>
     e = ErrCanceled \<or> (case Unwrap e of None \<Rightarrow> False | Some e' \<Rightarrow> errors_Is_Canceled e')"
  by (cases e) simp_all

lemma errors_Is_Canceled_iff_chain:
  "errors_Is_Canceled e \<longleftrightarrow> ErrCanceled \<in> set (unwrap_chain e)"
  by (induction e) auto

text \<open>
  C6. The exit code is 0 when the error \<open>mainImpl\<close> returned is nil or has
  \<open>context.Canceled\<close> in its chain of wrapped errors, and 1 for every other error.
\<close>

theorem exit_code_by_error:
  "fst (exitMain err :: int \<times> ('m, 'a) event list) =
     (case err of
        None \<Rightarrow> 0
      | Some e \<Rightarrow> if ErrCanceled \<in> set (unwrap_chain e) then 0 else 1) \<and>
   fst (main (L :: ('m, 'a) lib) W) =
     (case fst (mainImpl L W) of
        None \<Rightarrow> 0
      | Some e \<Rightarrow> if ErrCanceled \<in> set (unwrap_chain e) then 0 else 1)"
  by (simp add: main_def exitMain_def errors_Is_Canceled_iff_chain
      split: option.splits prod.splits)

theorem exit_code_by_error_witness:
  "fst (exitMain None :: int \<times> (byte list, byte list) event list) = 0 \<and>
   fst (exitMain (Some (ErrWrap ''failed to create database client: ''
                          (ErrWrap ''failed to connect to postgres: '' ErrCanceled)))
        :: int \<times> (byte list, byte list) event list) = 0 \<and>
   fst (exitMain (Some (ErrText ''redis address is empty''))
        :: int \<times> (byte list, byte list) event list) = 1 \<and>
   fst (mainImpl sample_lib sample_world) = Some ErrCanceled \<and>
   fst (main sample_lib sample_world) = 0 \<and>
   fst (mainImpl sample_lib world_no_redis)
     = Some (ErrWrap ''failed to create redis client: '' (ErrText ''redis address is empty'')) \<and>
   fst (main sample_lib world_no_redis) = 1"
proof -
  have m: "fst (mainImpl sample_lib sample_world) = Some ErrCanceled"
    "fst (mainImpl sample_lib world_no_redis)
       = Some (ErrWrap ''failed to create redis client: '' (ErrText ''redis address is empty''))"
    by code_simp+
  from m exit_code_by_error [of None sample_lib sample_world]
    exit_code_by_error
      [of "Some (ErrWrap ''failed to create database client: ''
                   (ErrWrap ''failed to connect to postgres: '' ErrCanceled))"
          sample_lib world_no_redis]
    exit_code_by_error [of "Some (ErrText ''redis address is empty'')" sample_lib sample_world]
  show ?thesis by simp
qed

subsection \<open>Sequencing\<close>

lemma andThen_simps [simp]:
  "andThen (Ok x, evs) f = (fst (f x), evs @ snd (f x))"
  "andThen (Return e, evs) f = (Return e, evs)"
  "andThen (Panic p, evs) f = (Panic p, evs)"
  by (simp_all add: andThen_def split: prod.splits)

lemma orReturn_simps [simp]:
  "orReturn prefix (Inl err, evs) = (Return (ErrWrap prefix err), evs)"
  "orReturn prefix (Inr x, evs) = (Ok x, evs)"
  by (simp_all add: orReturn_def)

lemma andThen_orReturn:
  "andThen (orReturn prefix r) f =
     (case fst r of
        Inl err \<Rightarrow> (Return (ErrWrap prefix err), snd r)
      | Inr x \<Rightarrow> (fst (f x), snd r @ snd (f x)))"
  by (cases r) (simp add: orReturn_def split: sum.splits)

lemma bind_outcome_OkE:
  assumes "bind_outcome m f = Ok y"
  obtains x where "m = Ok x" and "f x = Ok y"
  using assms by (cases m) (simp_all add: bind_outcome_def)

lemma bind_outcome_not_Return:
  assumes "\<And>e. m \<noteq> Return e" and "\<And>x e. f x \<noteq> Return e"
  shows "bind_outcome m f \<noteq> Return e"
  using assms by (cases m) (simp_all add: bind_outcome_def)

subsection \<open>\<open>config.New\<close> panics on a malformed variable\<close>

lemma GetEnvIntIfSet_not_Return [simp]: "GetEnvIntIfSet L env v d \<noteq> Return e"
  by (simp add: GetEnvIntIfSet_def Let_def split: sum.splits)

lemma GetEnvBoolIfSet_not_Return [simp]: "GetEnvBoolIfSet L env v d \<noteq> Return e"
  by (simp add: GetEnvBoolIfSet_def Let_def split: sum.splits)

lemma GetEnvSecondsIfSet_not_Return [simp]: "GetEnvSecondsIfSet L env v d \<noteq> Return e"
  by (simp add: GetEnvSecondsIfSet_def bind_outcome_not_Return)

lemma config_New_not_Return: "config_New L env \<noteq> Return e"
  unfolding config_New_def
  by (intro bind_outcome_not_Return allI) simp_all

lemma config_New_cases:
  obtains cfg where "config_New L env = Ok cfg" | r where "config_New L env = Panic r"
  using config_New_not_Return [of L env] by (cases "config_New L env") auto

lemma GetEnvIntIfSet_Ok:
  assumes "GetEnvIntIfSet L env v d = Ok n" and "os_Getenv env v \<noteq> []"
  shows "strconv_Atoi L (os_Getenv env v) = Inr n"
  using assms by (simp add: GetEnvIntIfSet_def Let_def split: sum.splits)

lemma GetEnvSecondsIfSet_Ok:
  assumes "GetEnvSecondsIfSet L env v d = Ok n" and "os_Getenv env v \<noteq> []"
  shows "\<exists>k. strconv_Atoi L (os_Getenv env v) = Inr k"
  using assms
  by (auto simp: GetEnvSecondsIfSet_def elim!: bind_outcome_OkE dest: GetEnvIntIfSet_Ok)

lemma GetEnvBoolIfSet_Ok:
  assumes "GetEnvBoolIfSet L env v d = Ok b" and "os_Getenv env v \<noteq> []"
  shows "strconv_ParseBool L (os_Getenv env v) = Inr b"
  using assms by (simp add: GetEnvBoolIfSet_def Let_def split: sum.splits)

lemma config_New_Ok_ints:
  assumes "config_New L env = Ok cfg" and "v \<in> set int_env_vars" and "os_Getenv env v \<noteq> []"
  shows "\<exists>n. strconv_Atoi L (os_Getenv env v) = Inr n"
  using assms unfolding config_New_def int_env_vars_def
  by (elim bind_outcome_OkE) (auto dest: GetEnvIntIfSet_Ok GetEnvSecondsIfSet_Ok)

lemma config_New_Ok_bools:
  assumes "config_New L env = Ok cfg" and "v \<in> set bool_env_vars" and "os_Getenv env v \<noteq> []"
  shows "\<exists>b. strconv_ParseBool L (os_Getenv env v) = Inr b"
  using assms unfolding config_New_def bool_env_vars_def
  by (elim bind_outcome_OkE) (auto dest: GetEnvBoolIfSet_Ok)

lemma mainImpl_body_config_panics:
  assumes "config_New L (os_env W) = Panic r"
  shows "mainImpl_body L W = (Panic r, [EvGo G_handleSignals])"
  using assms by (simp add: mainImpl_body_def)

text \<open>
  C7. A panic of the body of \<open>mainImpl\<close> is recovered: \<open>mainImpl\<close> returns an error whose
  message holds the panic value and the stack trace, and the process exits with code 1.
  The body does panic when a variable that \<open>config.New\<close> parses as an integer, or as
  a boolean, is set to a non-empty string that \<open>strconv.Atoi\<close>, or
  \<open>strconv.ParseBool\<close>, rejects.
\<close>

theorem panics_are_recovered:
  "(fst (mainImpl_body L W) = Panic r
    \<longrightarrow> fst (mainImpl L W) =
          Some (ErrText (''panic: '' @ fmt_v r @ [CHR 0x0A] @ debug_Stack W)) \<and>
        fst (main L W) = 1) \<and>
   (v \<in> set int_env_vars \<and> os_Getenv (os_env W) v \<noteq> [] \<and>
    strconv_Atoi L (os_Getenv (os_env W) v) = Inl msg
    \<longrightarrow> (\<exists>r. fst (mainImpl_body L W) = Panic r)) \<and>
   (b \<in> set bool_env_vars \<and> os_Getenv (os_env W) b \<noteq> [] \<and>
    strconv_ParseBool L (os_Getenv (os_env W) b) = Inl msg'
    \<longrightarrow> (\<exists>r. fst (mainImpl_body L W) = Panic r))"
proof (intro conjI impI; (elim conjE)?)
  assume p: "fst (mainImpl_body L W) = Panic r"
  then obtain evs where body: "mainImpl_body L W = (Panic r, evs)"
    by (cases "mainImpl_body L W") simp
  then show "fst (mainImpl L W) =
      Some (ErrText (''panic: '' @ fmt_v r @ [CHR 0x0A] @ debug_Stack W))"
    by (simp add: mainImpl_def)
  from body show "fst (main L W) = 1"
    by (simp add: main_def mainImpl_def exitMain_def split: prod.splits)
next
  assume bad: "v \<in> set int_env_vars" "os_Getenv (os_env W) v \<noteq> []"
    "strconv_Atoi L (os_Getenv (os_env W) v) = Inl msg"
  show "\<exists>r. fst (mainImpl_body L W) = Panic r"
  proof (cases rule: config_New_cases [of L "os_env W"])
    case (1 cfg)
    from config_New_Ok_ints [OF 1 bad(1,2)] bad(3) show ?thesis by simp
  next
    case (2 r)
    then show ?thesis by (simp add: mainImpl_body_config_panics)
  qed
next
  assume bad: "b \<in> set bool_env_vars" "os_Getenv (os_env W) b \<noteq> []"
    "strconv_ParseBool L (os_Getenv (os_env W) b) = Inl msg'"
  show "\<exists>r. fst (mainImpl_body L W) = Panic r"
  proof (cases rule: config_New_cases [of L "os_env W"])
    case (1 cfg)
    from config_New_Ok_bools [OF 1 bad(1,2)] bad(3) show ?thesis by simp
  next
    case (2 r)
    then show ?thesis by (simp add: mainImpl_body_config_panics)
  qed
qed

theorem panics_are_recovered_witness:
  "''REDIS_DB'' \<in> set int_env_vars \<and>
   os_Getenv (os_env world_bad_env) ''REDIS_DB'' \<noteq> [] \<and>
   strconv_Atoi sample_lib (os_Getenv (os_env world_bad_env) ''REDIS_DB'')
     = Inl (''strconv.Atoi: parsing '' @ sample_Quote ''zero'' @ '': invalid syntax'') \<and>
   ''VERBOSE'' \<in> set bool_env_vars \<and>
   os_Getenv (os_env world_bad_env) ''VERBOSE'' \<noteq> [] \<and>
   strconv_ParseBool sample_lib (os_Getenv (os_env world_bad_env) ''VERBOSE'')
     = Inl (''strconv.ParseBool: parsing '' @ sample_Quote ''maybe'' @ '': invalid syntax'') \<and>
   fst (mainImpl_body sample_lib world_bad_env)
     = Panic (PanicString (''failed to parse environment variable VERBOSE as bool: '' @
         ''strconv.ParseBool: parsing '' @ sample_Quote ''maybe'' @ '': invalid syntax'')) \<and>
   fst (mainImpl sample_lib world_bad_env)
     = Some (ErrText (''panic: '' @
         ''failed to parse environment variable VERBOSE as bool: '' @
         ''strconv.ParseBool: parsing '' @ sample_Quote ''maybe'' @ '': invalid syntax'' @
         [CHR 0x0A] @ ''goroutine 1 [running]:'')) \<and>
   fst (main sample_lib world_bad_env) = 1"
proof -
  let ?r = "PanicString (''failed to parse environment variable VERBOSE as bool: '' @
         ''strconv.ParseBool: parsing '' @ sample_Quote ''maybe'' @ '': invalid syntax'')"
  have i: "''REDIS_DB'' \<in> set int_env_vars"
    "os_Getenv (os_env world_bad_env) ''REDIS_DB'' \<noteq> []"
    "strconv_Atoi sample_lib (os_Getenv (os_env world_bad_env) ''REDIS_DB'')
      = Inl (''strconv.Atoi: parsing '' @ sample_Quote ''zero'' @ '': invalid syntax'')"
    by code_simp+
  have b: "''VERBOSE'' \<in> set bool_env_vars"
    "os_Getenv (os_env world_bad_env) ''VERBOSE'' \<noteq> []"
    "strconv_ParseBool sample_lib (os_Getenv (os_env world_bad_env) ''VERBOSE'')
      = Inl (''strconv.ParseBool: parsing '' @ sample_Quote ''maybe'' @ '': invalid syntax'')"
    by code_simp+
  have p: "fst (mainImpl_body sample_lib world_bad_env) = Panic ?r"
    by code_simp
  have s: "debug_Stack world_bad_env = ''goroutine 1 [running]:''"
    by code_simp
  from panics_are_recovered
    [where L = sample_lib and W = world_bad_env and r = ?r and v = "''REDIS_DB''"
       and b = "''VERBOSE''"] i b p s
  show ?thesis by simp
qed

subsection \<open>How far \<open>mainImpl\<close> gets\<close>

lemma createAwsCfg_no_start:
  "createAwsCfg W c = (r, evs) \<Longrightarrow> filter is_service_start evs = []"
  by (auto simp: createAwsCfg_def split: option.splits if_splits)

lemma newSQSClient_no_start:
  "filter is_service_start (snd (newSQSClient W c q)) = []"
  by (auto simp: newSQSClient_def split: prod.splits option.splits dest: createAwsCfg_no_start)

lemma newAlertQueue_no_start:
  "filter is_service_start (snd (newAlertQueue L W cfg)) = []"
  by (simp add: newAlertQueue_def Let_def newSQSClient_no_start split: option.splits)

lemma newCommandQueue_no_start:
  "filter is_service_start (snd (newCommandQueue L W cfg)) = []"
  by (simp add: newCommandQueue_def Let_def newSQSClient_no_start split: option.splits)

lemma newPostgresClient_no_start:
  "filter is_service_start (snd (newPostgresClient W c)) = []"
  by (simp add: newPostgresClient_def Let_def split: option.splits)

lemma newDynamoDBClient_no_start:
  "filter is_service_start (snd (newDynamoDBClient W c)) = []"
  by (auto simp: newDynamoDBClient_def Let_def split: prod.splits option.splits
      dest: createAwsCfg_no_start)

lemma newDatabase_no_start:
  "filter is_service_start (snd (newDatabase L W cfg)) = []"
  by (simp add: newDatabase_def Let_def newPostgresClient_no_start newDynamoDBClient_no_start)

lemmas backends_no_start =
  newAlertQueue_no_start newCommandQueue_no_start newDatabase_no_start

lemma startup_events_no_start: "filter is_service_start (startup_events cfg) = []"
  by (simp add: startup_events_def)

lemma backend_events_no_start: "filter is_service_start (backend_events L W cfg) = []"
  by (simp add: backend_events_def startup_events_no_start backends_no_start)

lemma main_of_Return:
  assumes "mainImpl_body L W = (Return err, evs)"
  shows "fst (mainImpl L W) = Some err"
    and "fst (main L W) = (if errors_Is_Canceled err then 0 else 1)"
    and "filter is_service_start (snd (main L W)) = filter is_service_start evs"
  using assms by (simp_all add: mainImpl_def main_def exitMain_def)

lemma mainImpl_redis_fails:
  assumes "config_New L (os_env W) = Ok cfg" and "newRedisClient (Redis cfg) = Inl e"
  shows "mainImpl_body L W =
           (Return (ErrWrap ''failed to create redis client: '' e), startup_events cfg)"
  using assms by (simp add: mainImpl_body_def startup_events_def)

lemma mainImpl_alertQueue_fails:
  assumes "config_New L (os_env W) = Ok cfg" and "newRedisClient (Redis cfg) = Inr rc"
    and "fst (newAlertQueue L W cfg) = Inl e"
  shows "mainImpl_body L W =
           (Return (ErrWrap ''failed to create alert queue: '' e),
            startup_events cfg @ snd (newAlertQueue L W cfg))"
  using assms
  by (simp add: mainImpl_body_def startup_events_def andThen_orReturn)

lemma mainImpl_commandQueue_fails:
  assumes "config_New L (os_env W) = Ok cfg" and "newRedisClient (Redis cfg) = Inr rc"
    and "fst (newAlertQueue L W cfg) = Inr aq"
    and "fst (newCommandQueue L W cfg) = Inl e"
  shows "mainImpl_body L W =
           (Return (ErrWrap ''failed to create command queue: '' e),
            startup_events cfg @ snd (newAlertQueue L W cfg) @ snd (newCommandQueue L W cfg))"
  using assms
  by (simp add: mainImpl_body_def startup_events_def andThen_orReturn)

lemma mainImpl_database_fails:
  assumes "config_New L (os_env W) = Ok cfg" and "newRedisClient (Redis cfg) = Inr rc"
    and "fst (newAlertQueue L W cfg) = Inr aq"
    and "fst (newCommandQueue L W cfg) = Inr cq"
    and "fst (newDatabase L W cfg) = Inl e"
  shows "mainImpl_body L W =
           (Return (ErrWrap ''failed to create database client: '' e),
            startup_events cfg @ snd (newAlertQueue L W cfg) @ snd (newCommandQueue L W cfg) @
            snd (newDatabase L W cfg))"
  using assms
  by (simp add: mainImpl_body_def startup_events_def andThen_orReturn)

lemma mainImpl_manager_read_fails:
  assumes "config_New L (os_env W) = Ok cfg" and "newRedisClient (Redis cfg) = Inr rc"
    and "fst (newAlertQueue L W cfg) = Inr aq"
    and "fst (newCommandQueue L W cfg) = Inr cq"
    and "fst (newDatabase L W cfg) = Inr db"
    and "time_LoadLocation W (Location cfg) = None"
    and "managerCfg_Validate W cfg = None"
    and "readManagerSettings L (fs_startup_manager W) (ManagerSettingsFilename cfg) = Inl e"
  shows "mainImpl_body L W =
           (Return (ErrWrap ''failed to read manager settings: '' e),
            backend_events L W cfg @
            [EvReadFile (filepath_Clean L (ManagerSettingsFilename cfg))])"
  using assms
  by (simp add: mainImpl_body_def startup_events_def backend_events_def andThen_orReturn
      getLocation_def validated_def)

lemma mainImpl_api_read_fails:
  assumes "config_New L (os_env W) = Ok cfg" and "newRedisClient (Redis cfg) = Inr rc"
    and "fst (newAlertQueue L W cfg) = Inr aq"
    and "fst (newCommandQueue L W cfg) = Inr cq"
    and "fst (newDatabase L W cfg) = Inr db"
    and "time_LoadLocation W (Location cfg) = None"
    and "managerCfg_Validate W cfg = None"
    and "readManagerSettings L (fs_startup_manager W) (ManagerSettingsFilename cfg) = Inr ms"
    and "apiCfg_Validate W cfg = None"
    and "readAPISettings L (fs_startup_api W) (APISettingsFilename cfg) = Inl e"
  shows "mainImpl_body L W =
           (Return (ErrWrap ''failed to read API settings: '' e),
            backend_events L W cfg @
            [EvReadFile (filepath_Clean L (ManagerSettingsFilename cfg)),
             EvReadFile (filepath_Clean L (APISettingsFilename cfg))])"
  using assms
  by (simp add: mainImpl_body_def startup_events_def backend_events_def andThen_orReturn
      getLocation_def validated_def split: prod.splits)

subsection \<open>A backend client that cannot be constructed\<close>

lemma newAlertQueue_unknown_mode:
  assumes "strings_ToLower L (QueueMode cfg) \<notin> {''sqs'', ''redis'', ''in-memory''}"
  shows "newAlertQueue L W cfg = (Inl (ErrText (''unknown queue mode: '' @ QueueMode cfg)), [])"
  using assms by (simp add: newAlertQueue_def Let_def)

lemma newDatabase_unknown_mode:
  assumes "strings_ToLower L (DatabaseMode cfg) \<notin> {''dynamodb'', ''postgres'', []}"
  shows "newDatabase L W cfg =
           (Inl (ErrText (''unknown database mode: '' @ DatabaseMode cfg)), [])"
  using assms by (simp add: newDatabase_def Let_def)

text \<open>
  C9, as amended. The claim says that every failure to construct a backend client ends
  in exit code 1. The constructors that take the context can fail with an error that
  wraps \<open>context.Canceled\<close>, and \<open>exitMain\<close> answers such an error with 0. What holds,
  once \<open>config.New\<close> has returned \<open>cfg\<close>: when the Redis client, the alert queue, the
  command queue or the database client cannot be constructed (the earlier ones having
  been constructed), \<open>mainImpl\<close> returns the constructor's error wrapped, no service
  and no refresh loop is started, and the exit code is 1 unless the constructor's
  error wraps \<open>context.Canceled\<close>, when it is 0. For a queue mode or a database mode
  that is not recognised, the factory's error names the mode and the exit code is 1.
\<close>

theorem backend_failure_aborts_startup:
  assumes cfg: "config_New L (os_env W) = Ok cfg"
  shows
    "((newRedisClient (Redis cfg) = Inl e \<and> prefix = ''failed to create redis client: '') \<or>
      (newRedisClient (Redis cfg) = Inr rc \<and> fst (newAlertQueue L W cfg) = Inl e \<and>
       prefix = ''failed to create alert queue: '') \<or>
      (newRedisClient (Redis cfg) = Inr rc \<and> fst (newAlertQueue L W cfg) = Inr aq \<and>
       fst (newCommandQueue L W cfg) = Inl e \<and> prefix = ''failed to create command queue: '') \<or>
      (newRedisClient (Redis cfg) = Inr rc \<and> fst (newAlertQueue L W cfg) = Inr aq \<and>
       fst (newCommandQueue L W cfg) = Inr cq \<and> fst (newDatabase L W cfg) = Inl e \<and>
       prefix = ''failed to create database client: '')
      \<longrightarrow> fst (mainImpl L W) = Some (ErrWrap prefix e) \<and>
          filter is_service_start (snd (main L W)) = [] \<and>
          fst (main L W) = (if errors_Is_Canceled e then 0 else 1)) \<and>
     (newRedisClient (Redis cfg) = Inr rc \<and>
      strings_ToLower L (QueueMode cfg) \<notin> {''sqs'', ''redis'', ''in-memory''}
      \<longrightarrow> fst (mainImpl L W) =
            Some (ErrWrap ''failed to create alert queue: ''
                    (ErrText (''unknown queue mode: '' @ QueueMode cfg))) \<and>
          filter is_service_start (snd (main L W)) = [] \<and>
          fst (main L W) = 1) \<and>
     (newRedisClient (Redis cfg) = Inr rc \<and> fst (newAlertQueue L W cfg) = Inr aq \<and>
      fst (newCommandQueue L W cfg) = Inr cq \<and>
      strings_ToLower L (DatabaseMode cfg) \<notin> {''dynamodb'', ''postgres'', []}
      \<longrightarrow> fst (mainImpl L W) =
            Some (ErrWrap ''failed to create database client: ''
                    (ErrText (''unknown database mode: '' @ DatabaseMode cfg))) \<and>
          filter is_service_start (snd (main L W)) = [] \<and>
          fst (main L W) = 1)"
proof (intro conjI impI)
  assume fail:
    "(newRedisClient (Redis cfg) = Inl e \<and> prefix = ''failed to create redis client: '') \<or>
     (newRedisClient (Redis cfg) = Inr rc \<and> fst (newAlertQueue L W cfg) = Inl e \<and>
      prefix = ''failed to create alert queue: '') \<or>
     (newRedisClient (Redis cfg) = Inr rc \<and> fst (newAlertQueue L W cfg) = Inr aq \<and>
      fst (newCommandQueue L W cfg) = Inl e \<and> prefix = ''failed to create command queue: '') \<or>
     (newRedisClient (Redis cfg) = Inr rc \<and> fst (newAlertQueue L W cfg) = Inr aq \<and>
      fst (newCommandQueue L W cfg) = Inr cq \<and> fst (newDatabase L W cfg) = Inl e \<and>
      prefix = ''failed to create database client: '')"
  have "\<exists>evs. mainImpl_body L W = (Return (ErrWrap prefix e), evs) \<and>
          filter is_service_start evs = []"
    using fail
  proof (elim disjE conjE)
    assume "newRedisClient (Redis cfg) = Inl e" "prefix = ''failed to create redis client: ''"
    with mainImpl_redis_fails [OF cfg] show ?thesis
      by (simp add: startup_events_no_start)
  next
    assume "newRedisClient (Redis cfg) = Inr rc" "fst (newAlertQueue L W cfg) = Inl e"
      "prefix = ''failed to create alert queue: ''"
    with mainImpl_alertQueue_fails [OF cfg] show ?thesis
      by (simp add: startup_events_no_start backends_no_start)
  next
    assume "newRedisClient (Redis cfg) = Inr rc" "fst (newAlertQueue L W cfg) = Inr aq"
      "fst (newCommandQueue L W cfg) = Inl e" "prefix = ''failed to create command queue: ''"
    with mainImpl_commandQueue_fails [OF cfg] show ?thesis
      by (simp add: startup_events_no_start backends_no_start)
  next
    assume "newRedisClient (Redis cfg) = Inr rc" "fst (newAlertQueue L W cfg) = Inr aq"
      "fst (newCommandQueue L W cfg) = Inr cq" "fst (newDatabase L W cfg) = Inl e"
      "prefix = ''failed to create database client: ''"
    with mainImpl_database_fails [OF cfg] show ?thesis
      by (simp add: startup_events_no_start backends_no_start)
  qed
  then obtain evs where body: "mainImpl_body L W = (Return (ErrWrap prefix e), evs)"
    and quiet: "filter is_service_start evs = []"
    by blast
  show "fst (mainImpl L W) = Some (ErrWrap prefix e)"
    by (rule main_of_Return(1) [OF body])
  show "filter is_service_start (snd (main L W)) = []"
    by (simp add: main_of_Return(3) [OF body] quiet)
  show "fst (main L W) = (if errors_Is_Canceled e then 0 else 1)"
    by (simp add: main_of_Return(2) [OF body])
next
  assume a: "newRedisClient (Redis cfg) = Inr rc \<and>
    strings_ToLower L (QueueMode cfg) \<notin> {''sqs'', ''redis'', ''in-memory''}"
  then have q: "fst (newAlertQueue L W cfg) = Inl (ErrText (''unknown queue mode: '' @ QueueMode cfg))"
    by (simp add: newAlertQueue_unknown_mode)
  from a have rc: "newRedisClient (Redis cfg) = Inr rc" by simp
  note body = mainImpl_alertQueue_fails [OF cfg rc q]
  show "fst (mainImpl L W) =
      Some (ErrWrap ''failed to create alert queue: ''
              (ErrText (''unknown queue mode: '' @ QueueMode cfg)))"
    by (rule main_of_Return(1) [OF body])
  show "filter is_service_start (snd (main L W)) = []"
    by (simp add: main_of_Return(3) [OF body] startup_events_no_start backends_no_start)
  show "fst (main L W) = 1"
    by (simp add: main_of_Return(2) [OF body])
next
  assume a: "newRedisClient (Redis cfg) = Inr rc \<and> fst (newAlertQueue L W cfg) = Inr aq \<and>
    fst (newCommandQueue L W cfg) = Inr cq \<and>
    strings_ToLower L (DatabaseMode cfg) \<notin> {''dynamodb'', ''postgres'', []}"
  then have d: "fst (newDatabase L W cfg) =
      Inl (ErrText (''unknown database mode: '' @ DatabaseMode cfg))"
    by (simp add: newDatabase_unknown_mode)
  from a have rc: "newRedisClient (Redis cfg) = Inr rc"
    and aq: "fst (newAlertQueue L W cfg) = Inr aq"
    and cq: "fst (newCommandQueue L W cfg) = Inr cq"
    by simp_all
  note body = mainImpl_database_fails [OF cfg rc aq cq d]
  show "fst (mainImpl L W) =
      Some (ErrWrap ''failed to create database client: ''
              (ErrText (''unknown database mode: '' @ DatabaseMode cfg)))"
    by (rule main_of_Return(1) [OF body])
  show "filter is_service_start (snd (main L W)) = []"
    by (simp add: main_of_Return(3) [OF body] startup_events_no_start backends_no_start)
  show "fst (main L W) = 1"
    by (simp add: main_of_Return(2) [OF body])
qed

theorem backend_failure_aborts_startup_witness:
  "config_New sample_lib (os_env world_no_redis) = Ok sample_cfg \<and>
   newRedisClient (Redis sample_cfg) = Inl (ErrText ''redis address is empty'') \<and>
   fst (mainImpl sample_lib world_no_redis)
     = Some (ErrWrap ''failed to create redis client: '' (ErrText ''redis address is empty'')) \<and>
   filter is_service_start (snd (main sample_lib world_no_redis)) = [] \<and>
   fst (main sample_lib world_no_redis) = 1 \<and>
   config_New sample_lib (os_env world_unknown_queue)
     = Ok (sample_world_cfg\<lparr>QueueMode := ''Kafka'', Postgres := Postgres sample_cfg\<rparr>) \<and>
   strings_ToLower sample_lib ''Kafka'' = ''kafka'' \<and>
   fst (mainImpl sample_lib world_unknown_queue)
     = Some (ErrWrap ''failed to create alert queue: '' (ErrText ''unknown queue mode: Kafka'')) \<and>
   filter is_service_start (snd (main sample_lib world_unknown_queue)) = [] \<and>
   fst (main sample_lib world_unknown_queue) = 1 \<and>
   config_New sample_lib (os_env world_unknown_database)
     = Ok (sample_world_cfg\<lparr>QueueMode := ''In-Memory'', DatabaseMode := ''MySQL'',
             Postgres := Postgres sample_cfg\<rparr>) \<and>
   strings_ToLower sample_lib ''MySQL'' = ''mysql'' \<and>
   fst (mainImpl sample_lib world_unknown_database)
     = Some (ErrWrap ''failed to create database client: ''
               (ErrText ''unknown database mode: MySQL'')) \<and>
   filter is_service_start (snd (main sample_lib world_unknown_database)) = [] \<and>
   fst (main sample_lib world_unknown_database) = 1"
proof -
  let ?cq = "sample_world_cfg\<lparr>QueueMode := ''Kafka'', Postgres := Postgres sample_cfg\<rparr>"
  let ?cd = "sample_world_cfg\<lparr>QueueMode := ''In-Memory'', DatabaseMode := ''MySQL'',
             Postgres := Postgres sample_cfg\<rparr>"
  have c1: "config_New sample_lib (os_env world_no_redis) = Ok sample_cfg"
    and c2: "config_New sample_lib (os_env world_unknown_queue) = Ok ?cq"
    and c3: "config_New sample_lib (os_env world_unknown_database) = Ok ?cd"
    by code_simp+
  have r1: "newRedisClient (Redis sample_cfg) = Inl (ErrText ''redis address is empty'')"
    and r2: "newRedisClient (Redis ?cq) = Inr (RedisClient (Redis ?cq))"
    and r3: "newRedisClient (Redis ?cd) = Inr (RedisClient (Redis ?cd))"
    by code_simp+
  have m2: "strings_ToLower sample_lib (QueueMode ?cq) \<notin> {''sqs'', ''redis'', ''in-memory''}"
    and m3: "strings_ToLower sample_lib (DatabaseMode ?cd) \<notin> {''dynamodb'', ''postgres'', []}"
    and l: "strings_ToLower sample_lib ''Kafka'' = ''kafka''"
      "strings_ToLower sample_lib ''MySQL'' = ''mysql''"
    and q: "QueueMode ?cq = ''Kafka''" "DatabaseMode ?cd = ''MySQL''"
    by code_simp+
  have q3: "fst (newAlertQueue sample_lib world_unknown_database ?cd)
      = Inr (InMemoryFifoQueue ''alerts'' 1000 (5 * time_Second))"
    "fst (newCommandQueue sample_lib world_unknown_database ?cd)
      = Inr (InMemoryFifoQueue ''commands'' 1000 (5 * time_Second))"
    by code_simp+
  have e1: "\<not> errors_Is_Canceled (ErrText ''redis address is empty'')"
    by simp
  note t1 = backend_failure_aborts_startup
    [OF c1, where e = "ErrText ''redis address is empty''"
       and prefix = "''failed to create redis client: ''", THEN conjunct1]
  note t2 = backend_failure_aborts_startup
    [OF c2, where rc = "RedisClient (Redis ?cq)", THEN conjunct2, THEN conjunct1]
  note t3 = backend_failure_aborts_startup
    [OF c3, where rc = "RedisClient (Redis ?cd)"
       and aq = "InMemoryFifoQueue ''alerts'' 1000 (5 * time_Second)"
       and cq = "InMemoryFifoQueue ''commands'' 1000 (5 * time_Second)",
     THEN conjunct2, THEN conjunct2]
  from t1 r1 e1 have w1:
    "fst (mainImpl sample_lib world_no_redis)
       = Some (ErrWrap ''failed to create redis client: '' (ErrText ''redis address is empty''))"
    "filter is_service_start (snd (main sample_lib world_no_redis)) = []"
    "fst (main sample_lib world_no_redis) = 1"
    by simp_all
  from t2 r2 m2 have w2:
    "fst (mainImpl sample_lib world_unknown_queue)
       = Some (ErrWrap ''failed to create alert queue: ''
                 (ErrText (''unknown queue mode: '' @ QueueMode ?cq)))"
    "filter is_service_start (snd (main sample_lib world_unknown_queue)) = []"
    "fst (main sample_lib world_unknown_queue) = 1"
    by blast+
  from t3 r3 m3 q3 have w3:
    "fst (mainImpl sample_lib world_unknown_database)
       = Some (ErrWrap ''failed to create database client: ''
                 (ErrText (''unknown database mode: '' @ DatabaseMode ?cd)))"
    "filter is_service_start (snd (main sample_lib world_unknown_database)) = []"
    "fst (main sample_lib world_unknown_database) = 1"
    by blast+
  from c1 c2 c3 r1 l w1 w2 [unfolded q] w3 [unfolded q] show ?thesis by simp
qed

text \<open>
  The claim C9 as stated fails: the context is cancelled while the Postgres client
  connects, \<open>Connect\<close> returns an error that wraps \<open>context.Canceled\<close>, constructing the
  database client fails, no service is started, and the process exits with code 0.
\<close>

theorem backend_failure_exit_code_counterexample:
  "config_New sample_lib (os_env world_cancelled_connect) = Ok sample_world_cfg \<and>
   fst (newDatabase sample_lib world_cancelled_connect sample_world_cfg)
     = Inl (ErrWrap ''failed to connect to postgres: '' ErrCanceled) \<and>
   fst (mainImpl sample_lib world_cancelled_connect)
     = Some (ErrWrap ''failed to create database client: ''
               (ErrWrap ''failed to connect to postgres: '' ErrCanceled)) \<and>
   filter is_service_start (snd (main sample_lib world_cancelled_connect)) = [] \<and>
   fst (main sample_lib world_cancelled_connect) = 0"
  by code_simp

subsection \<open>A settings file that cannot be read at startup\<close>

lemma readManagerSettings_Inl_iff:
  "readManagerSettings L fs f = Inl e \<longleftrightarrow>
     (\<exists>msg. fs (filepath_Clean L f) = Inl msg \<and>
        e = ErrWrap (''failed to read manager settings file '' @ f @ '': '') (ErrText msg)) \<or>
     (\<exists>bytes msg. fs (filepath_Clean L f) = Inr bytes \<and>
        yaml_Unmarshal_manager L bytes = Inl msg \<and>
        e = ErrWrap (''failed to unmarshal manager settings from '' @ f @ '': '') (ErrText msg))"
  by (auto simp: readManagerSettings_def split: sum.splits)

lemma readAPISettings_Inl_iff:
  "readAPISettings L fs f = Inl e \<longleftrightarrow>
     (\<exists>msg. fs (filepath_Clean L f) = Inl msg \<and>
        e = ErrWrap (''failed to read API settings file '' @ f @ '': '') (ErrText msg)) \<or>
     (\<exists>bytes msg. fs (filepath_Clean L f) = Inr bytes \<and>
        yaml_Unmarshal_api L bytes = Inl msg \<and>
        e = ErrWrap (''failed to unmarshal API settings from '' @ f @ '': '') (ErrText msg))"
  by (auto simp: readAPISettings_def split: sum.splits)

lemma readManagerSettings_error_not_Canceled:
  "readManagerSettings L fs f = Inl e \<Longrightarrow> \<not> errors_Is_Canceled e"
  by (auto simp: readManagerSettings_def split: sum.splits)

lemma readAPISettings_error_not_Canceled:
  "readAPISettings L fs f = Inl e \<Longrightarrow> \<not> errors_Is_Canceled e"
  by (auto simp: readAPISettings_def split: sum.splits)

subsection \<open>The loop goes on after a failed read\<close>

lemma run_cycles_append:
  "run_cycles L cfg st (xs @ ys) = run_cycles L cfg (run_cycles L cfg st xs) ys"
  by (induction xs arbitrary: st) simp_all

lemma refreshSettings_quiet:
  assumes "\<not> ctx_done st" and "\<forall>p \<in> set ts. \<not> ctx_Done_first p \<and> \<not> cancel_in_cycle p"
  shows "refreshSettings L cfg st ts = (None, run_cycles L cfg st ts)"
  using refreshSettings_quiet_prefix [OF assms, of L cfg "[]"] assms(1) by simp

lemma refreshCycle_manager_read_failed:
  assumes "readManagerSettings L (fs_manager t) (ManagerSettingsFilename cfg) = Inl err"
  shows "refreshCycle L cfg t st =
           refreshAPI L cfg t
             (emit [EvReadFile (filepath_Clean L (ManagerSettingsFilename cfg)),
                    EvLog ErrorLevel ''Failed to read manager settings: %s'' [AErr err]] st)"
  by (simp add: refreshCycle_def refreshManager_read_failed [OF assms])

lemma refreshCycle_api_read_failed:
  assumes "readAPISettings L (fs_api t) (APISettingsFilename cfg) = Inl err"
  shows "refreshCycle L cfg t st =
           emit [EvReadFile (filepath_Clean L (APISettingsFilename cfg)),
                 EvLog ErrorLevel ''Failed to read API settings: %s'' [AErr err]]
             (refreshManager L cfg t st)"
  by (simp add: refreshCycle_def refreshAPI_read_failed [OF assms])

lemma loop_goes_on_after_manager_read_failure:
  assumes "\<not> ctx_done st"
    and "\<forall>p \<in> set (pre @ t # rest). \<not> ctx_Done_first p \<and> \<not> cancel_in_cycle p"
    and "readManagerSettings L (fs_manager t) (ManagerSettingsFilename cfg) = Inl err"
  shows "refreshSettings L cfg st (pre @ t # rest) =
           (None,
            run_cycles L cfg
              (refreshAPI L cfg t
                 (emit [EvReadFile (filepath_Clean L (ManagerSettingsFilename cfg)),
                        EvLog ErrorLevel ''Failed to read manager settings: %s'' [AErr err]]
                    (run_cycles L cfg st pre)))
              rest)"
  by (simp add: refreshSettings_quiet [OF assms(1,2)] run_cycles_append
      refreshCycle_manager_read_failed [OF assms(3)])

lemma loop_goes_on_after_api_read_failure:
  assumes "\<not> ctx_done st"
    and "\<forall>p \<in> set (pre @ t # rest). \<not> ctx_Done_first p \<and> \<not> cancel_in_cycle p"
    and "readAPISettings L (fs_api t) (APISettingsFilename cfg) = Inl err"
  shows "refreshSettings L cfg st (pre @ t # rest) =
           (None,
            run_cycles L cfg
              (emit [EvReadFile (filepath_Clean L (APISettingsFilename cfg)),
                     EvLog ErrorLevel ''Failed to read API settings: %s'' [AErr err]]
                 (refreshManager L cfg t (run_cycles L cfg st pre)))
              rest)"
  by (simp add: refreshSettings_quiet [OF assms(1,2)] run_cycles_append
      refreshCycle_api_read_failed [OF assms(3)])

text \<open>
  C10. When \<open>mainImpl\<close> gets as far as the startup read of the manager settings and
  the read or the parse fails, or the manager settings are read and the startup read of
  the API settings fails, \<open>mainImpl\<close> returns that error wrapped, no service and no
  refresh loop is started, and the process exits with code 1. In the refresh loop the
  same failure does not end anything: as long as the context is not cancelled the loop
  does not return, whatever its reads give; when the read of one kind fails in some
  cycle \<open>t\<close>, that cycle adds the read and the log of the error for that kind and runs
  the other kind's block, and the cycles after \<open>t\<close> run as well. The loop returns no
  error but \<open>context.Canceled\<close>.
\<close>

theorem startup_read_failure_aborts:
  assumes "config_New L (os_env W) = Ok cfg" and "newRedisClient (Redis cfg) = Inr rc"
    and "fst (newAlertQueue L W cfg) = Inr aq"
    and "fst (newCommandQueue L W cfg) = Inr cq"
    and "fst (newDatabase L W cfg) = Inr db"
    and "time_LoadLocation W (Location cfg) = None"
    and "managerCfg_Validate W cfg = None"
    and fail:
      "(readManagerSettings L (fs_startup_manager W) (ManagerSettingsFilename cfg) = Inl e \<and>
        prefix = ''failed to read manager settings: '') \<or>
       (readManagerSettings L (fs_startup_manager W) (ManagerSettingsFilename cfg) = Inr ms \<and>
        apiCfg_Validate W cfg = None \<and>
        readAPISettings L (fs_startup_api W) (APISettingsFilename cfg) = Inl e \<and>
        prefix = ''failed to read API settings: '')"
  shows "fst (mainImpl L W) = Some (ErrWrap prefix e) \<and>
         filter is_service_start (snd (main L W)) = [] \<and>
         fst (main L W) = 1 \<and>
         (fst (refreshSettings L cfg st ts) = None \<or>
          fst (refreshSettings L cfg st ts) = Some ErrCanceled) \<and>
         (readManagerSettings L (fs_manager t) (ManagerSettingsFilename cfg) = Inl e'
          \<longrightarrow> refreshManager L cfg t st =
                emit [EvReadFile (filepath_Clean L (ManagerSettingsFilename cfg)),
                      EvLog ErrorLevel ''Failed to read manager settings: %s'' [AErr e']] st) \<and>
         (readAPISettings L (fs_api t) (APISettingsFilename cfg) = Inl e'
          \<longrightarrow> refreshAPI L cfg t st =
                emit [EvReadFile (filepath_Clean L (APISettingsFilename cfg)),
                      EvLog ErrorLevel ''Failed to read API settings: %s'' [AErr e']] st) \<and>
         (\<not> ctx_done st \<and> (\<forall>p \<in> set ts. \<not> ctx_Done_first p \<and> \<not> cancel_in_cycle p)
          \<longrightarrow> refreshSettings L cfg st ts = (None, run_cycles L cfg st ts)) \<and>
         (\<not> ctx_done st \<and>
          (\<forall>p \<in> set (pre @ t # rest). \<not> ctx_Done_first p \<and> \<not> cancel_in_cycle p) \<and>
          readManagerSettings L (fs_manager t) (ManagerSettingsFilename cfg) = Inl e'
          \<longrightarrow> refreshSettings L cfg st (pre @ t # rest) =
                (None,
                 run_cycles L cfg
                   (refreshAPI L cfg t
                      (emit [EvReadFile (filepath_Clean L (ManagerSettingsFilename cfg)),
                             EvLog ErrorLevel ''Failed to read manager settings: %s''
                               [AErr e']]
                         (run_cycles L cfg st pre)))
                   rest)) \<and>
         (\<not> ctx_done st \<and>
          (\<forall>p \<in> set (pre @ t # rest). \<not> ctx_Done_first p \<and> \<not> cancel_in_cycle p) \<and>
          readAPISettings L (fs_api t) (APISettingsFilename cfg) = Inl e'
          \<longrightarrow> refreshSettings L cfg st (pre @ t # rest) =
                (None,
                 run_cycles L cfg
                   (emit [EvReadFile (filepath_Clean L (APISettingsFilename cfg)),
                          EvLog ErrorLevel ''Failed to read API settings: %s'' [AErr e']]
                      (refreshManager L cfg t (run_cycles L cfg st pre)))
                   rest))"
proof -
  have "\<exists>evs. mainImpl_body L W = (Return (ErrWrap prefix e), evs) \<and>
          filter is_service_start evs = [] \<and> \<not> errors_Is_Canceled e"
    using fail
  proof (elim disjE conjE)
    assume r: "readManagerSettings L (fs_startup_manager W) (ManagerSettingsFilename cfg) = Inl e"
      and p: "prefix = ''failed to read manager settings: ''"
    from mainImpl_manager_read_fails [OF assms(1-7) r] p
      readManagerSettings_error_not_Canceled [OF r]
    show ?thesis by (simp add: backend_events_no_start)
  next
    assume r: "readManagerSettings L (fs_startup_manager W) (ManagerSettingsFilename cfg) = Inr ms"
      "apiCfg_Validate W cfg = None"
      "readAPISettings L (fs_startup_api W) (APISettingsFilename cfg) = Inl e"
      and p: "prefix = ''failed to read API settings: ''"
    from mainImpl_api_read_fails [OF assms(1-7) r] p
      readAPISettings_error_not_Canceled [OF r(3)]
    show ?thesis by (simp add: backend_events_no_start)
  qed
  then obtain evs where body: "mainImpl_body L W = (Return (ErrWrap prefix e), evs)"
    and quiet: "filter is_service_start evs = []" and nc: "\<not> errors_Is_Canceled e"
    by blast
  have 1: "fst (mainImpl L W) = Some (ErrWrap prefix e)"
    by (rule main_of_Return(1) [OF body])
  have 2: "filter is_service_start (snd (main L W)) = []"
    by (simp add: main_of_Return(3) [OF body] quiet)
  have 3: "fst (main L W) = 1"
    by (simp add: main_of_Return(2) [OF body] nc)
  have 4: "fst (refreshSettings L cfg st ts) = None \<or>
      fst (refreshSettings L cfg st ts) = Some ErrCanceled"
    by (rule refreshSettings_returns_only_Canceled)
  have 5: "readManagerSettings L (fs_manager t) (ManagerSettingsFilename cfg) = Inl e'
      \<longrightarrow> refreshManager L cfg t st =
            emit [EvReadFile (filepath_Clean L (ManagerSettingsFilename cfg)),
                  EvLog ErrorLevel ''Failed to read manager settings: %s'' [AErr e']] st"
    by (simp add: refreshManager_read_failed)
  have 6: "readAPISettings L (fs_api t) (APISettingsFilename cfg) = Inl e'
      \<longrightarrow> refreshAPI L cfg t st =
            emit [EvReadFile (filepath_Clean L (APISettingsFilename cfg)),
                  EvLog ErrorLevel ''Failed to read API settings: %s'' [AErr e']] st"
    by (simp add: refreshAPI_read_failed)
  have 7: "\<not> ctx_done st \<and> (\<forall>p \<in> set ts. \<not> ctx_Done_first p \<and> \<not> cancel_in_cycle p)
      \<longrightarrow> refreshSettings L cfg st ts = (None, run_cycles L cfg st ts)"
    by (simp add: refreshSettings_quiet)
  have 8: "\<not> ctx_done st \<and>
      (\<forall>p \<in> set (pre @ t # rest). \<not> ctx_Done_first p \<and> \<not> cancel_in_cycle p) \<and>
      readManagerSettings L (fs_manager t) (ManagerSettingsFilename cfg) = Inl e'
      \<longrightarrow> refreshSettings L cfg st (pre @ t # rest) =
            (None,
             run_cycles L cfg
               (refreshAPI L cfg t
                  (emit [EvReadFile (filepath_Clean L (ManagerSettingsFilename cfg)),
                         EvLog ErrorLevel ''Failed to read manager settings: %s''
                           [AErr e']]
                     (run_cycles L cfg st pre)))
               rest)"
    using loop_goes_on_after_manager_read_failure [of st pre t rest L cfg e'] by blast
  have 9: "\<not> ctx_done st \<and>
      (\<forall>p \<in> set (pre @ t # rest). \<not> ctx_Done_first p \<and> \<not> cancel_in_cycle p) \<and>
      readAPISettings L (fs_api t) (APISettingsFilename cfg) = Inl e'
      \<longrightarrow> refreshSettings L cfg st (pre @ t # rest) =
            (None,
             run_cycles L cfg
               (emit [EvReadFile (filepath_Clean L (APISettingsFilename cfg)),
                      EvLog ErrorLevel ''Failed to read API settings: %s'' [AErr e']]
                  (refreshManager L cfg t (run_cycles L cfg st pre)))
               rest)"
    using loop_goes_on_after_api_read_failure [of st pre t rest L cfg e'] by blast
  from 1 2 3 4 5 6 7 8 9 show ?thesis by (intro conjI)
qed

theorem startup_read_failure_aborts_witness:
  "config_New sample_lib (os_env world_no_manager_file) = Ok sample_world_cfg \<and>
   readManagerSettings sample_lib (fs_startup_manager world_no_manager_file)
     (ManagerSettingsFilename sample_world_cfg)
     = Inl (ErrWrap ''failed to read manager settings file manager-settings.yaml: ''
              (ErrText ''open manager-settings.yaml: no such file or directory'')) \<and>
   fst (mainImpl sample_lib world_no_manager_file)
     = Some (ErrWrap ''failed to read manager settings: ''
              (ErrWrap ''failed to read manager settings file manager-settings.yaml: ''
                 (ErrText ''open manager-settings.yaml: no such file or directory''))) \<and>
   filter is_service_start (snd (main sample_lib world_no_manager_file)) = [] \<and>
   fst (main sample_lib world_no_manager_file) = 1 \<and>
   config_New sample_lib (os_env world_bad_api_yaml) = Ok sample_world_cfg \<and>
   readAPISettings sample_lib (fs_startup_api world_bad_api_yaml)
     (APISettingsFilename sample_world_cfg)
     = Inl (ErrWrap ''failed to unmarshal API settings from api-settings.yaml: ''
              (ErrText ''yaml: found character that cannot start any token'')) \<and>
   fst (mainImpl sample_lib world_bad_api_yaml)
     = Some (ErrWrap ''failed to read API settings: ''
              (ErrWrap ''failed to unmarshal API settings from api-settings.yaml: ''
                 (ErrText ''yaml: found character that cannot start any token''))) \<and>
   filter is_service_start (snd (main sample_lib world_bad_api_yaml)) = [] \<and>
   fst (main sample_lib world_bad_api_yaml) = 1 \<and>
   readAPISettings sample_lib (fs_api (sample_tick [97] [9] None None))
     (APISettingsFilename sample_world_cfg)
     = Inl (ErrWrap ''failed to unmarshal API settings from api-settings.yaml: ''
              (ErrText ''yaml: found character that cannot start any token'')) \<and>
   refreshAPI sample_lib sample_world_cfg (sample_tick [97] [9] None None) sample_state
     = emit [EvReadFile (filepath_Clean sample_lib (APISettingsFilename sample_world_cfg)),
             EvLog ErrorLevel ''Failed to read API settings: %s''
               [AErr (ErrWrap ''failed to unmarshal API settings from api-settings.yaml: ''
                        (ErrText ''yaml: found character that cannot start any token''))]]
         sample_state \<and>
   fst (refreshSettings sample_lib sample_world_cfg sample_state
          [sample_tick [97] [9] None None]) = None \<and>
   \<not> ctx_done sample_state \<and>
   \<not> ctx_Done_first (sample_tick [9] [98] None None) \<and>
   \<not> cancel_in_cycle (sample_tick [9] [98] None None) \<and>
   \<not> ctx_Done_first (sample_tick [97, 97] [98] None None) \<and>
   \<not> cancel_in_cycle (sample_tick [97, 97] [98] None None) \<and>
   readManagerSettings sample_lib (fs_manager (sample_tick [9] [98] None None))
     (ManagerSettingsFilename sample_world_cfg)
     = Inl (ErrWrap ''failed to unmarshal manager settings from manager-settings.yaml: ''
              (ErrText ''yaml: found character that cannot start any token'')) \<and>
   refreshSettings sample_lib sample_world_cfg sample_state
     [sample_tick [9] [98] None None, sample_tick [97, 97] [98] None None]
     = (None,
        \<lparr>managerSettingsHash = ''02c2'', apiSettingsHash = ''0162'', ctx_done = False,
         trace =
           [EvReadFile ''manager-settings.yaml'',
            EvLog ErrorLevel ''Failed to read manager settings: %s''
              [AErr (ErrWrap
                 ''failed to unmarshal manager settings from manager-settings.yaml: ''
                 (ErrText ''yaml: found character that cannot start any token''))],
            EvReadFile ''api-settings.yaml'',
            EvReadFile ''manager-settings.yaml'', EvManagerUpdateSettings [97, 97],
            EvReadFile ''api-settings.yaml'']\<rparr>) \<and>
   \<not> ctx_Done_first (sample_tick [97] [9] None None) \<and>
   \<not> cancel_in_cycle (sample_tick [97] [9] None None) \<and>
   \<not> ctx_Done_first (sample_tick [97] [98, 99] None None) \<and>
   \<not> cancel_in_cycle (sample_tick [97] [98, 99] None None) \<and>
   refreshSettings sample_lib sample_world_cfg sample_state
     [sample_tick [97] [9] None None, sample_tick [97] [98, 99] None None]
     = (None,
        \<lparr>managerSettingsHash = ''0161'', apiSettingsHash = ''02c5'', ctx_done = False,
         trace =
           [EvReadFile ''manager-settings.yaml'',
            EvReadFile ''api-settings.yaml'',
            EvLog ErrorLevel ''Failed to read API settings: %s''
              [AErr (ErrWrap ''failed to unmarshal API settings from api-settings.yaml: ''
                       (ErrText ''yaml: found character that cannot start any token''))],
            EvReadFile ''manager-settings.yaml'',
            EvReadFile ''api-settings.yaml'', EvAPIUpdateSettings [98, 99]]\<rparr>)"
proof -
  let ?pg = "PostgresClient (Postgres sample_world_cfg)"
  let ?aq = "InMemoryFifoQueue ''alerts'' 1000 (5 * time_Second)"
  let ?cq = "InMemoryFifoQueue ''commands'' 1000 (5 * time_Second)"
  let ?rc = "RedisClient (Redis sample_world_cfg)"
  let ?em = "ErrWrap ''failed to read manager settings file manager-settings.yaml: ''
              (ErrText ''open manager-settings.yaml: no such file or directory'')"
  let ?ea = "ErrWrap ''failed to unmarshal API settings from api-settings.yaml: ''
              (ErrText ''yaml: found character that cannot start any token'')"
  have m: "config_New sample_lib (os_env world_no_manager_file) = Ok sample_world_cfg"
    "newRedisClient (Redis sample_world_cfg) = Inr ?rc"
    "fst (newAlertQueue sample_lib world_no_manager_file sample_world_cfg) = Inr ?aq"
    "fst (newCommandQueue sample_lib world_no_manager_file sample_world_cfg) = Inr ?cq"
    "fst (newDatabase sample_lib world_no_manager_file sample_world_cfg) = Inr ?pg"
    "time_LoadLocation world_no_manager_file (Location sample_world_cfg) = None"
    "managerCfg_Validate world_no_manager_file sample_world_cfg = None"
    by code_simp+
  have mf: "readManagerSettings sample_lib (fs_startup_manager world_no_manager_file)
      (ManagerSettingsFilename sample_world_cfg) = Inl ?em"
    by code_simp
  have a: "config_New sample_lib (os_env world_bad_api_yaml) = Ok sample_world_cfg"
    "newRedisClient (Redis sample_world_cfg) = Inr ?rc"
    "fst (newAlertQueue sample_lib world_bad_api_yaml sample_world_cfg) = Inr ?aq"
    "fst (newCommandQueue sample_lib world_bad_api_yaml sample_world_cfg) = Inr ?cq"
    "fst (newDatabase sample_lib world_bad_api_yaml sample_world_cfg) = Inr ?pg"
    "time_LoadLocation world_bad_api_yaml (Location sample_world_cfg) = None"
    "managerCfg_Validate world_bad_api_yaml sample_world_cfg = None"
    by code_simp+
  have af: "readManagerSettings sample_lib (fs_startup_manager world_bad_api_yaml)
      (ManagerSettingsFilename sample_world_cfg) = Inr ([97], ''0161'')"
    "apiCfg_Validate world_bad_api_yaml sample_world_cfg = None"
    "readAPISettings sample_lib (fs_startup_api world_bad_api_yaml)
      (APISettingsFilename sample_world_cfg) = Inl ?ea"
    by code_simp+
  have dm: "(readManagerSettings sample_lib (fs_startup_manager world_no_manager_file)
        (ManagerSettingsFilename sample_world_cfg) = Inl ?em \<and>
      ''failed to read manager settings: '' = ''failed to read manager settings: '') \<or>
     (readManagerSettings sample_lib (fs_startup_manager world_no_manager_file)
        (ManagerSettingsFilename sample_world_cfg) = Inr ([97], ''0161'') \<and>
      apiCfg_Validate world_no_manager_file sample_world_cfg = None \<and>
      readAPISettings sample_lib (fs_startup_api world_no_manager_file)
        (APISettingsFilename sample_world_cfg) = Inl ?em \<and>
      ''failed to read manager settings: '' = ''failed to read API settings: '')"
    using mf by simp
  have da: "(readManagerSettings sample_lib (fs_startup_manager world_bad_api_yaml)
        (ManagerSettingsFilename sample_world_cfg) = Inl ?ea \<and>
      ''failed to read API settings: '' = ''failed to read manager settings: '') \<or>
     (readManagerSettings sample_lib (fs_startup_manager world_bad_api_yaml)
        (ManagerSettingsFilename sample_world_cfg) = Inr ([97], ''0161'') \<and>
      apiCfg_Validate world_bad_api_yaml sample_world_cfg = None \<and>
      readAPISettings sample_lib (fs_startup_api world_bad_api_yaml)
        (APISettingsFilename sample_world_cfg) = Inl ?ea \<and>
      ''failed to read API settings: '' = ''failed to read API settings: '')"
    using af by simp
  have rf: "readAPISettings sample_lib (fs_api (sample_tick [97] [9] None None))
      (APISettingsFilename sample_world_cfg) = Inl ?ea"
    by code_simp
  let ?eb = "ErrWrap ''failed to unmarshal manager settings from manager-settings.yaml: ''
              (ErrText ''yaml: found character that cannot start any token'')"
  let ?tm = "sample_tick [9] [98] None None"
  let ?tm' = "sample_tick [97, 97] [98] None None"
  let ?ta = "sample_tick [97] [9] None None"
  let ?ta' = "sample_tick [97] [98, 99] None None"
  have q: "\<not> ctx_done sample_state"
    "\<not> ctx_Done_first ?tm" "\<not> cancel_in_cycle ?tm"
    "\<not> ctx_Done_first ?tm'" "\<not> cancel_in_cycle ?tm'"
    "\<not> ctx_Done_first ?ta" "\<not> cancel_in_cycle ?ta"
    "\<not> ctx_Done_first ?ta'" "\<not> cancel_in_cycle ?ta'"
    by code_simp+
  have qm: "\<forall>p \<in> set ([] @ ?tm # [?tm']). \<not> ctx_Done_first p \<and> \<not> cancel_in_cycle p"
    and qa: "\<forall>p \<in> set ([] @ ?ta # [?ta']). \<not> ctx_Done_first p \<and> \<not> cancel_in_cycle p"
    and q1: "\<forall>p \<in> set [?ta]. \<not> ctx_Done_first p \<and> \<not> cancel_in_cycle p"
    using q by simp_all
  have rm: "readManagerSettings sample_lib (fs_manager ?tm)
      (ManagerSettingsFilename sample_world_cfg) = Inl ?eb"
    by code_simp
  have vm: "run_cycles sample_lib sample_world_cfg
      (refreshAPI sample_lib sample_world_cfg ?tm
         (emit [EvReadFile (filepath_Clean sample_lib (ManagerSettingsFilename sample_world_cfg)),
                EvLog ErrorLevel ''Failed to read manager settings: %s'' [AErr ?eb]]
            (run_cycles sample_lib sample_world_cfg sample_state [])))
      [?tm']
    = \<lparr>managerSettingsHash = ''02c2'', apiSettingsHash = ''0162'', ctx_done = False,
       trace =
         [EvReadFile ''manager-settings.yaml'',
          EvLog ErrorLevel ''Failed to read manager settings: %s'' [AErr ?eb],
          EvReadFile ''api-settings.yaml'',
          EvReadFile ''manager-settings.yaml'', EvManagerUpdateSettings [97, 97],
          EvReadFile ''api-settings.yaml'']\<rparr>"
    by code_simp
  have va: "run_cycles sample_lib sample_world_cfg
      (emit [EvReadFile (filepath_Clean sample_lib (APISettingsFilename sample_world_cfg)),
             EvLog ErrorLevel ''Failed to read API settings: %s'' [AErr ?ea]]
         (refreshManager sample_lib sample_world_cfg ?ta
            (run_cycles sample_lib sample_world_cfg sample_state [])))
      [?ta']
    = \<lparr>managerSettingsHash = ''0161'', apiSettingsHash = ''02c5'', ctx_done = False,
       trace =
         [EvReadFile ''manager-settings.yaml'',
          EvReadFile ''api-settings.yaml'',
          EvLog ErrorLevel ''Failed to read API settings: %s'' [AErr ?ea],
          EvReadFile ''manager-settings.yaml'',
          EvReadFile ''api-settings.yaml'', EvAPIUpdateSettings [98, 99]]\<rparr>"
    by code_simp
  note tm = startup_read_failure_aborts
    [OF m dm, where st = sample_state and pre = "[]" and t = ?tm and rest = "[?tm']"
       and e' = ?eb]
  note ta = startup_read_failure_aborts
    [OF a da, where st = sample_state and pre = "[]" and t = ?ta and rest = "[?ta']"
       and e' = ?ea and ts = "[?ta]"]
  from tm q(1) qm rm have lm:
    "refreshSettings sample_lib sample_world_cfg sample_state ([] @ ?tm # [?tm']) =
       (None,
        run_cycles sample_lib sample_world_cfg
          (refreshAPI sample_lib sample_world_cfg ?tm
             (emit [EvReadFile (filepath_Clean sample_lib
                      (ManagerSettingsFilename sample_world_cfg)),
                    EvLog ErrorLevel ''Failed to read manager settings: %s'' [AErr ?eb]]
                (run_cycles sample_lib sample_world_cfg sample_state [])))
          [?tm'])"
    by blast
  from ta q(1) qa rf have la:
    "refreshSettings sample_lib sample_world_cfg sample_state ([] @ ?ta # [?ta']) =
       (None,
        run_cycles sample_lib sample_world_cfg
          (emit [EvReadFile (filepath_Clean sample_lib (APISettingsFilename sample_world_cfg)),
                 EvLog ErrorLevel ''Failed to read API settings: %s'' [AErr ?ea]]
             (refreshManager sample_lib sample_world_cfg ?ta
                (run_cycles sample_lib sample_world_cfg sample_state [])))
          [?ta'])"
    by blast
  from ta q(1) q1 have l1:
    "refreshSettings sample_lib sample_world_cfg sample_state [?ta] =
       (None, run_cycles sample_lib sample_world_cfg sample_state [?ta])"
    by blast
  from ta rf have ra:
    "refreshAPI sample_lib sample_world_cfg ?ta sample_state
     = emit [EvReadFile (filepath_Clean sample_lib (APISettingsFilename sample_world_cfg)),
             EvLog ErrorLevel ''Failed to read API settings: %s'' [AErr ?ea]] sample_state"
    by blast
  from tm ta have st:
    "fst (mainImpl sample_lib world_no_manager_file)
       = Some (ErrWrap ''failed to read manager settings: '' ?em)"
    "filter is_service_start (snd (main sample_lib world_no_manager_file)) = []"
    "fst (main sample_lib world_no_manager_file) = 1"
    "fst (mainImpl sample_lib world_bad_api_yaml)
       = Some (ErrWrap ''failed to read API settings: '' ?ea)"
    "filter is_service_start (snd (main sample_lib world_bad_api_yaml)) = []"
    "fst (main sample_lib world_bad_api_yaml) = 1"
    by blast+
  from st m(1) a(1) mf af(3) rf ra l1 q rm lm [unfolded vm] la [unfolded va]
  show ?thesis by simp
qed

end
